theory Spec2Isabelle
  imports Main "HOL-Library.Char_ord" "HOL-Library.List_Lexorder"
begin

section \<open>Strings\<close>

text \<open>
  A Python \<open>str\<close> is modelled as a \<open>string\<close>; each \<open>char\<close> stands for the code point
  of the same number, so the model covers the texts whose code points are below 256.
  The helpers below are the \<open>str\<close> methods that \<open>procesador.py\<close> calls.
\<close>

definition codigo :: "char \<Rightarrow> nat" where
  "codigo c = of_char c"

text \<open>\<open>str.isspace\<close> on one character: the code points below 256 that Python strips.\<close>

definition es_espacio :: "char \<Rightarrow> bool" where
  "es_espacio c = ((9 \<le> codigo c \<and> codigo c \<le> 13) \<or> (28 \<le> codigo c \<and> codigo c \<le> 32)
     \<or> codigo c = 133 \<or> codigo c = 160)"

definition strip :: "string \<Rightarrow> string" where
  "strip s = rev (dropWhile es_espacio (rev (dropWhile es_espacio s)))"

definition startswith :: "string \<Rightarrow> string \<Rightarrow> bool" where
  "startswith s p = (take (length p) s = p)"

definition salto :: char where
  "salto = CHR 0x0A"

text \<open>\<open>s.split("\n")\<close>: never empty, one more piece than there are newlines.\<close>

fun split_nl :: "string \<Rightarrow> string list" where
  "split_nl [] = [[]]"
| "split_nl (c # cs) =
     (if c = salto then [] # split_nl cs
      else (case split_nl cs of [] \<Rightarrow> [[c]] | l # ls \<Rightarrow> (c # l) # ls))"

text \<open>\<open>sep.join(lineas)\<close>\<close>

fun join :: "string \<Rightarrow> string list \<Rightarrow> string" where
  "join sep [] = []"
| "join sep [l] = l"
| "join sep (l # ls) = l @ sep @ join sep ls"

text \<open>\<open>s.strip(chars)\<close>\<close>

definition strip_de :: "string \<Rightarrow> string \<Rightarrow> string" where
  "strip_de chars s =
     rev (dropWhile (\<lambda>c. c \<in> set chars) (rev (dropWhile (\<lambda>c. c \<in> set chars) s)))"

text \<open>
  \<open>str.lower\<close> on one character below 256: the letters A to Z and the capital
  letters of Latin-1 (192 to 222, without the multiplication sign 215) move up by 32.
\<close>

definition minuscula :: "char \<Rightarrow> char" where
  "minuscula c =
     (if (65 \<le> codigo c \<and> codigo c \<le> 90) \<or> (192 \<le> codigo c \<and> codigo c \<le> 222 \<and> codigo c \<noteq> 215)
      then char_of (codigo c + 32) else c)"

definition lower :: "string \<Rightarrow> string" where
  "lower s = map minuscula s"

definition cerca :: string where
  "cerca = [CHR 0x60, CHR 0x60, CHR 0x60]"

section \<open>Values returned by \<open>json.loads\<close>\<close>

text \<open>
  A float is carried as the text of its literal: nothing here computes with it. A \<open>dict\<close> is
  an association list in insertion order; \<open>json.loads\<close> builds it with distinct keys.
\<close>

datatype json =
    JNull
  | JBool bool
  | JInt int
  | JFloat string
  | JStr string
  | JList "json list"
  | JDict "(string \<times> json) list"

text \<open>\<open>type(x).__name__\<close>\<close>

fun nombre_tipo :: "json \<Rightarrow> string" where
  "nombre_tipo JNull = ''NoneType''"
| "nombre_tipo (JBool b) = ''bool''"
| "nombre_tipo (JInt i) = ''int''"
| "nombre_tipo (JFloat f) = ''float''"
| "nombre_tipo (JStr s) = ''str''"
| "nombre_tipo (JList l) = ''list''"
| "nombre_tipo (JDict d) = ''dict''"

section \<open>Exceptions\<close>

text \<open>
  The text of an exception, \<open>str(e)\<close>, kept structured: one constructor for each
  message that the program formats, with the values it interpolates.
\<close>

datatype mensaje =
    ApiKeyNoConfigurada
  | FormatoNoSoportado string string
  | NoDecodificable string
  | PdfSinTexto string
  | WordVacio string
  | ExcelVacio string
  | NoEsJSON
  | ListaVacia
  | NoEsObjeto string
  | CamposFaltantes "string set"
  | NombreInvalido
  | MontoInvalido string
  | FechaNoString
  | FechaInvalida string
  | TipoInvalido json
  | NoHasheable string
  | SinAtributo string string
  | ClaveAusente string
  | Texto string
  | FalloExtraccion nat mensaje
  | ErrorAPI nat mensaje
  | Inesperado

datatype clase =
    ValueError | UnicodeDecodeError | RuntimeError | TypeError | AttributeError | KeyError
  | EnvironmentError | OtraExcepcion

datatype excepcion = Exc clase mensaje

fun clase_de :: "excepcion \<Rightarrow> clase" where
  "clase_de (Exc c m) = c"

fun str_de :: "excepcion \<Rightarrow> mensaje" where
  "str_de (Exc c m) = m"

text \<open>
  \<open>except C\<close> catches the instances of \<open>C\<close> and of its subclasses:
  \<open>UnicodeDecodeError\<close> is a \<open>ValueError\<close>, and every class here is an \<open>Exception\<close>.
\<close>

definition es_instancia :: "excepcion \<Rightarrow> clase \<Rightarrow> bool" where
  "es_instancia e c =
     (clase_de e = c \<or> (clase_de e = UnicodeDecodeError \<and> c = ValueError))"

section \<open>Configuration\<close>

definition MAX_REINTENTOS :: nat where
  "MAX_REINTENTOS = 3"

definition CAMPOS_REQUERIDOS :: "string set" where
  "CAMPOS_REQUERIDOS = {''nombre_cliente'', ''monto'', ''fecha'', ''tipo_solicitud''}"

definition TIPOS_VALIDOS :: "string set" where
  "TIPOS_VALIDOS = {''Venta'', ''Queja'', ''Factura''}"

definition EXTENSIONES_SOPORTADAS :: "string set" where
  "EXTENSIONES_SOPORTADAS = {''.txt'', ''.pdf'', ''.docx'', ''.xlsx'', ''.xls''}"

section \<open>\<open>datetime.strptime(s, "%Y-%m-%d")\<close>\<close>

text \<open>
  \<open>strptime\<close> compiles the format to the regular expression
  \<^verbatim>\<open>(?P<Y>\d\d\d\d)-(?P<m>1[0-2]|0[1-9]|[1-9])-(?P<d>3[0-1]|[1-2]\d|0[1-9]|[1-9]| [1-9])\<close>,
  matches it at the start of the text, refuses text left over after the match, and
  builds a date from the three numbers, which refuses year 0 and a day the month lacks.
  Each group below returns its matches in the order the regular expression tries them,
  with the text that remains.
\<close>

definition es_digito :: "char \<Rightarrow> bool" where
  "es_digito c = (48 \<le> codigo c \<and> codigo c \<le> 57)"

definition valor :: "char \<Rightarrow> nat" where
  "valor c = codigo c - 48"

definition entre :: "char \<Rightarrow> nat \<Rightarrow> nat \<Rightarrow> bool" where
  "entre c lo hi = (es_digito c \<and> lo \<le> valor c \<and> valor c \<le> hi)"

fun grupo_Y :: "string \<Rightarrow> (nat \<times> string) list" where
  "grupo_Y (a # b # c # d # r) =
     (if es_digito a \<and> es_digito b \<and> es_digito c \<and> es_digito d
      then [(1000 * valor a + 100 * valor b + 10 * valor c + valor d, r)] else [])"
| "grupo_Y s = []"

fun literal :: "char \<Rightarrow> string \<Rightarrow> string list" where
  "literal x (c # r) = (if c = x then [r] else [])"
| "literal x [] = []"

text \<open>Two characters \<open>a\<close>, \<open>b\<close> with \<open>a\<close> in \<open>[lo1-hi1]\<close> and \<open>b\<close> in \<open>[lo2-hi2]\<close>.\<close>

fun dos :: "nat \<Rightarrow> nat \<Rightarrow> nat \<Rightarrow> nat \<Rightarrow> string \<Rightarrow> (nat \<times> string) list" where
  "dos lo1 hi1 lo2 hi2 (a # b # r) =
     (if entre a lo1 hi1 \<and> entre b lo2 hi2 then [(10 * valor a + valor b, r)] else [])"
| "dos lo1 hi1 lo2 hi2 s = []"

fun uno :: "nat \<Rightarrow> nat \<Rightarrow> string \<Rightarrow> (nat \<times> string) list" where
  "uno lo hi (a # r) = (if entre a lo hi then [(valor a, r)] else [])"
| "uno lo hi [] = []"

fun espacio_uno :: "string \<Rightarrow> (nat \<times> string) list" where
  "espacio_uno (a # b # r) = (if a = CHR '' '' \<and> entre b 1 9 then [(valor b, r)] else [])"
| "espacio_uno s = []"

definition grupo_m :: "string \<Rightarrow> (nat \<times> string) list" where
  "grupo_m s = dos 1 1 0 2 s @ dos 0 0 1 9 s @ uno 1 9 s"

definition grupo_d :: "string \<Rightarrow> (nat \<times> string) list" where
  "grupo_d s = dos 3 3 0 1 s @ dos 1 2 0 9 s @ dos 0 0 1 9 s @ uno 1 9 s @ espacio_uno s"

definition regex_fecha :: "string \<Rightarrow> (nat \<times> nat \<times> nat \<times> string) list" where
  "regex_fecha s =
     concat (map (\<lambda>(y, r1).
       concat (map (\<lambda>r2.
         concat (map (\<lambda>(m, r3).
           concat (map (\<lambda>r4.
             map (\<lambda>(d, r5). (y, m, d, r5)) (grupo_d r4))
           (literal CHR ''-'' r3)))
         (grupo_m r2)))
       (literal CHR ''-'' r1)))
     (grupo_Y s))"

definition bisiesto :: "nat \<Rightarrow> bool" where
  "bisiesto y = (y mod 4 = 0 \<and> (y mod 100 \<noteq> 0 \<or> y mod 400 = 0))"

definition dias_mes :: "nat \<Rightarrow> nat \<Rightarrow> nat" where
  "dias_mes y m =
     (if m = 2 then (if bisiesto y then 29 else 28)
      else if m = 4 \<or> m = 6 \<or> m = 9 \<or> m = 11 then 30 else 31)"

text \<open>The checks of the \<open>date\<close> constructor.\<close>

definition fecha_valida :: "nat \<Rightarrow> nat \<Rightarrow> nat \<Rightarrow> bool" where
  "fecha_valida y m d =
     (1 \<le> y \<and> y \<le> 9999 \<and> 1 \<le> m \<and> m \<le> 12 \<and> 1 \<le> d \<and> d \<le> dias_mes y m)"

text \<open>\<open>None\<close> is the \<open>ValueError\<close> that \<open>strptime\<close> raises.\<close>

definition strptime :: "string \<Rightarrow> (nat \<times> nat \<times> nat) option" where
  "strptime s =
     (case regex_fecha s of
        [] \<Rightarrow> None
      | (y, m, d, r) # _ \<Rightarrow>
          if r \<noteq> [] then None
          else if fecha_valida y m d then Some (y, m, d) else None)"

section \<open>\<open>validar_json\<close>\<close>

text \<open>Lines 175 to 179: the markdown wrapper is removed.\<close>

definition limpiar :: "string \<Rightarrow> string" where
  "limpiar respuesta_texto =
     (let texto = strip respuesta_texto in
      if startswith texto cerca
      then strip (join [salto] (filter (\<lambda>l. \<not> startswith (strip l) cerca) (split_nl texto)))
      else texto)"

text \<open>\<open>isinstance(x, (int, float))\<close>; \<open>bool\<close> is a subclass of \<open>int\<close> in Python.\<close>

fun es_int_o_float :: "json \<Rightarrow> bool" where
  "es_int_o_float (JInt i) = True"
| "es_int_o_float (JFloat f) = True"
| "es_int_o_float (JBool b) = True"
| "es_int_o_float x = False"

text \<open>Lines 203 and 204.\<close>

fun revisar_nombre :: "json \<Rightarrow> excepcion option" where
  "revisar_nombre (JStr s) =
     (if strip s = [] then Some (Exc ValueError NombreInvalido) else None)"
| "revisar_nombre x = Some (Exc ValueError NombreInvalido)"

text \<open>Lines 206 to 208.\<close>

definition revisar_monto :: "json \<Rightarrow> excepcion option" where
  "revisar_monto x =
     (if x \<noteq> JNull then
        (if \<not> es_int_o_float x then Some (Exc ValueError (MontoInvalido (nombre_tipo x)))
         else None)
      else None)"

text \<open>Lines 210 to 215.\<close>

fun revisar_fecha :: "json \<Rightarrow> excepcion option" where
  "revisar_fecha (JStr s) =
     (case strptime s of
        None \<Rightarrow> Some (Exc ValueError (FechaInvalida s))
      | Some f \<Rightarrow> None)"
| "revisar_fecha x = Some (Exc ValueError FechaNoString)"

text \<open>
  Lines 217 to 221. Membership in a \<open>set\<close> hashes the value first: a \<open>list\<close> or a
  \<open>dict\<close> raises \<open>TypeError\<close>; any other value that is not one of the three strings is
  simply not a member.
\<close>

fun revisar_tipo :: "json \<Rightarrow> excepcion option" where
  "revisar_tipo (JStr s) =
     (if s \<notin> TIPOS_VALIDOS then Some (Exc ValueError (TipoInvalido (JStr s))) else None)"
| "revisar_tipo (JList l) = Some (Exc TypeError (NoHasheable ''list''))"
| "revisar_tipo (JDict d) = Some (Exc TypeError (NoHasheable ''dict''))"
| "revisar_tipo x = Some (Exc ValueError (TipoInvalido x))"

text \<open>\<open>datos[k]\<close>\<close>

definition obtener :: "(string \<times> json) list \<Rightarrow> string \<Rightarrow> excepcion + json" where
  "obtener kvs k =
     (case map_of kvs k of None \<Rightarrow> Inl (Exc KeyError (ClaveAusente k)) | Some v \<Rightarrow> Inr v)"

text \<open>One check on one field: the field is read, then checked.\<close>

definition campo :: "(string \<times> json) list \<Rightarrow> string \<Rightarrow> (json \<Rightarrow> excepcion option)
    \<Rightarrow> excepcion option" where
  "campo kvs k revisar = (case obtener kvs k of Inl e \<Rightarrow> Some e | Inr v \<Rightarrow> revisar v)"

text \<open>Lines 197 to 223, on a dictionary.\<close>

definition validar_campos :: "(string \<times> json) list \<Rightarrow> excepcion + json" where
  "validar_campos kvs =
     (let campos_faltantes = CAMPOS_REQUERIDOS - set (map fst kvs) in
      if campos_faltantes \<noteq> {} then Inl (Exc ValueError (CamposFaltantes campos_faltantes))
      else case campo kvs ''nombre_cliente'' revisar_nombre of Some e \<Rightarrow> Inl e | None \<Rightarrow>
           (case campo kvs ''monto'' revisar_monto of Some e \<Rightarrow> Inl e | None \<Rightarrow>
           (case campo kvs ''fecha'' revisar_fecha of Some e \<Rightarrow> Inl e | None \<Rightarrow>
           (case campo kvs ''tipo_solicitud'' revisar_tipo of Some e \<Rightarrow> Inl e | None \<Rightarrow>
            Inr (JDict kvs)))))"

text \<open>Lines 193 to 195, then the field checks.\<close>

fun validar_objeto :: "json \<Rightarrow> excepcion + json" where
  "validar_objeto (JDict kvs) = validar_campos kvs"
| "validar_objeto x = Inl (Exc ValueError (NoEsObjeto (nombre_tipo x)))"

text \<open>Lines 187 to 191, then the rest.\<close>

fun validar_datos :: "json \<Rightarrow> excepcion + json" where
  "validar_datos (JList []) = Inl (Exc ValueError ListaVacia)"
| "validar_datos (JList (x # xs)) = validar_objeto x"
| "validar_datos x = validar_objeto x"

text \<open>
  \<open>validar_json\<close>. The parser \<open>json.loads\<close> is the parameter \<open>loads\<close>; \<open>None\<close> is its
  \<open>JSONDecodeError\<close>.
\<close>

definition validar_json :: "(string \<Rightarrow> json option) \<Rightarrow> string \<Rightarrow> excepcion + json" where
  "validar_json loads respuesta_texto =
     (case loads (limpiar respuesta_texto) of
        None \<Rightarrow> Inl (Exc ValueError NoEsJSON)
      | Some datos \<Rightarrow> validar_datos datos)"

section \<open>The world outside the program\<close>

text \<open>
  What the program does to its surroundings is written into a record that every
  operation takes and returns: the requests sent to the completion service, the lines
  the logger emits (level \<open>INFO\<close> and above, as \<open>basicConfig\<close> sets it), the files
  written under the output directory, whether that directory has been created, and
  how many times the clock has been read.
\<close>

datatype nivel = INFO | WARNING | ERROR

datatype evento =
    Intento nat nat
  | JsonValido
  | ValidacionFallida mensaje
  | ErrorDeAPI mensaje
  | SinArchivos
  | Encontrados nat
  | Procesando string
  | Guardado string
  | ErrorFatal mensaje
  | ResumenGuardado
  | ResumenFinal nat nat

text \<open>One successful document, and one failed document, as the summary lists them.\<close>

record resultado =
  archivo_origen :: string
  datos_extraidos :: json
  procesado_en :: string

record fallo =
  archivo_fallido :: string
  error_fallo :: mensaje

datatype artefacto =
    Individual json
  | Resumen nat nat string "resultado list" "fallo list"

record mundo =
  llamadas :: "string list"
  registro :: "(nivel \<times> evento) list"
  escritos :: "(string \<times> artefacto) list"
  dir_salida :: bool
  lecturas_reloj :: nat

definition mundo_inicial :: mundo where
  "mundo_inicial = \<lparr>llamadas = [], registro = [], escritos = [], dir_salida = False,
     lecturas_reloj = 0\<rparr>"

definition anotar :: "nivel \<Rightarrow> evento \<Rightarrow> mundo \<Rightarrow> mundo" where
  "anotar n e w = w\<lparr>registro := registro w @ [(n, e)]\<rparr>"

definition escribir :: "string \<Rightarrow> artefacto \<Rightarrow> mundo \<Rightarrow> mundo" where
  "escribir ruta a w = w\<lparr>escritos := escritos w @ [(ruta, a)]\<rparr>"

text \<open>
  One reply of the completion service: the text of the first choice, a first choice
  whose content is \<open>None\<close>, or an exception.
\<close>

datatype respuesta = Contenido string | SinContenido | Lanza excepcion

datatype codificacion = UTF8 | LATIN1 | CP1252

text \<open>
  What a library raises: its class and its text. The libraries format their own
  messages, so none of them is one of the program's.
\<close>

type_synonym error_externo = "clase \<times> string"

definition externo :: "error_externo \<Rightarrow> excepcion" where
  "externo e = Exc (fst e) (Texto (snd e))"

record docx =
  parrafos :: "string list"
  tablas :: "string list list list"

text \<open>
  An entry of the input directory, with what each library finds in it:
  \<open>read_text\<close> for each encoding (the text, or what it raises), the text that
  \<open>extract_text\<close> gives for each page of the PDF, the paragraphs and tables of the Word
  document, and the sheets of the workbook, each a name and rows of cells, a cell being
  \<open>None\<close> or the \<open>str\<close> of its value.
\<close>

record archivo =
  nombre :: string
  es_archivo :: bool
  read_text :: "codificacion \<Rightarrow> error_externo + string"
  pdf :: "error_externo + string option list"
  word :: "error_externo + docx"
  excel :: "error_externo + (string \<times> string option list list) list"

record entorno =
  api_key :: "string option"
  directorio :: "archivo list"
  cliente :: "string \<Rightarrow> nat \<Rightarrow> respuesta"
  json_loads :: "string \<Rightarrow> json option"
  reloj :: "nat \<Rightarrow> string"

section \<open>Paths\<close>

text \<open>\<open>name.rfind('.')\<close>\<close>

definition rfind_punto :: "string \<Rightarrow> nat option" where
  "rfind_punto name =
     (let k = length (takeWhile (\<lambda>c. c \<noteq> CHR ''.'') (rev name)) in
      if k = length name then None else Some (length name - 1 - k))"

text \<open>\<open>Path.suffix\<close> and \<open>Path.stem\<close>\<close>

definition suffix :: "string \<Rightarrow> string" where
  "suffix name =
     (case rfind_punto name of
        None \<Rightarrow> []
      | Some i \<Rightarrow> if 0 < i \<and> i + 1 < length name then drop i name else [])"

definition stem :: "string \<Rightarrow> string" where
  "stem name =
     (case rfind_punto name of
        None \<Rightarrow> name
      | Some i \<Rightarrow> if 0 < i \<and> i + 1 < length name then take i name else name)"

section \<open>Readers\<close>

text \<open>
  The loop over the encodings: \<open>except UnicodeDecodeError\<close> goes on to the next one,
  any other exception of \<open>read_text\<close> leaves the reader.
\<close>

fun leer_txt_bucle :: "archivo \<Rightarrow> codificacion list \<Rightarrow> excepcion + string" where
  "leer_txt_bucle ruta [] = Inl (Exc ValueError (NoDecodificable (nombre ruta)))"
| "leer_txt_bucle ruta (enc # encs) =
     (case read_text ruta enc of
        Inr t \<Rightarrow> Inr t
      | Inl e \<Rightarrow>
          if fst e = UnicodeDecodeError then leer_txt_bucle ruta encs
          else Inl (externo e))"

definition leer_txt :: "archivo \<Rightarrow> excepcion + string" where
  "leer_txt ruta = leer_txt_bucle ruta [UTF8, LATIN1, CP1252]"

definition leer_pdf :: "archivo \<Rightarrow> excepcion + string" where
  "leer_pdf ruta =
     (case pdf ruta of
        Inl e \<Rightarrow> Inl (externo e)
      | Inr paginas \<Rightarrow>
          (let texto_paginas =
                 concat (map (\<lambda>texto. case texto of None \<Rightarrow> []
                                       | Some t \<Rightarrow> if t \<noteq> [] then [t] else []) paginas);
               contenido = join [salto] texto_paginas in
           if strip contenido = [] then Inl (Exc ValueError (PdfSinTexto (nombre ruta)))
           else Inr contenido))"

definition leer_docx :: "archivo \<Rightarrow> excepcion + string" where
  "leer_docx ruta =
     (case word ruta of
        Inl e \<Rightarrow> Inl (externo e)
      | Inr doc \<Rightarrow>
          (let de_parrafos = filter (\<lambda>p. strip p \<noteq> []) (parrafos doc);
               de_tablas =
                 concat (map (\<lambda>tabla.
                   concat (map (\<lambda>fila.
                     (let celdas = filter (\<lambda>c. c \<noteq> []) (map strip fila) in
                      if celdas \<noteq> [] then [join '' | '' celdas] else [])) tabla))
                 (tablas doc));
               contenido = join [salto] (de_parrafos @ de_tablas) in
           if strip contenido = [] then Inl (Exc ValueError (WordVacio (nombre ruta)))
           else Inr contenido))"

definition leer_excel :: "archivo \<Rightarrow> excepcion + string" where
  "leer_excel ruta =
     (case excel ruta of
        Inl e \<Rightarrow> Inl (externo e)
      | Inr hojas \<Rightarrow>
          (let lineas =
                 concat (map (\<lambda>(hoja, filas).
                   (''--- Hoja: '' @ hoja @ '' ---'') #
                   concat (map (\<lambda>fila.
                     (let valores = map (\<lambda>v. case v of None \<Rightarrow> [] | Some t \<Rightarrow> t) fila;
                          linea = join '' | '' valores in
                      if strip_de '' |'' linea \<noteq> [] then [linea] else [])) filas))
                 hojas);
               contenido = join [salto] lineas in
           if strip contenido = [] then Inl (Exc ValueError (ExcelVacio (nombre ruta)))
           else Inr contenido))"

definition leer_archivo :: "archivo \<Rightarrow> excepcion + string" where
  "leer_archivo ruta =
     (let ext = lower (suffix (nombre ruta)) in
      if ext = ''.txt'' then leer_txt ruta
      else if ext = ''.pdf'' then leer_pdf ruta
      else if ext = ''.docx'' then leer_docx ruta
      else if ext = ''.xlsx'' \<or> ext = ''.xls'' then leer_excel ruta
      else Inl (Exc ValueError (FormatoNoSoportado ext (nombre ruta))))"

section \<open>\<open>extraer_datos\<close>\<close>

definition crear_cliente_openai :: "entorno \<Rightarrow> excepcion + unit" where
  "crear_cliente_openai env =
     (case api_key env of
        None \<Rightarrow> Inl (Exc EnvironmentError ApiKeyNoConfigurada)
      | Some k \<Rightarrow>
          if k = [] \<or> k = ''sk-tu-api-key-aqui''
          then Inl (Exc EnvironmentError ApiKeyNoConfigurada) else Inr ())"

text \<open>The user message of the request; the rest of the request is constant.\<close>

definition peticion :: "string \<Rightarrow> string" where
  "peticion texto = ''Extrae los datos del siguiente texto:'' @ [salto, salto] @ texto"

text \<open>
  The body of the \<open>try\<close> of one attempt, after the request: a content that is \<open>None\<close>
  has no \<open>strip\<close>.
\<close>

fun cuerpo_intento :: "(string \<Rightarrow> json option) \<Rightarrow> respuesta \<Rightarrow> excepcion + json" where
  "cuerpo_intento l (Lanza e) = Inl e"
| "cuerpo_intento l SinContenido = Inl (Exc AttributeError (SinAtributo ''NoneType'' ''strip''))"
| "cuerpo_intento l (Contenido t) = validar_json l t"

text \<open>
  The loop over \<open>range(1, MAX_REINTENTOS + 1)\<close>: the list holds the attempts that
  remain. A request is sent at each attempt and recorded in \<open>llamadas\<close>.
\<close>

fun extraer_bucle :: "entorno \<Rightarrow> string \<Rightarrow> nat list \<Rightarrow> mundo \<Rightarrow> (excepcion + json) \<times> mundo" where
  "extraer_bucle env texto [] w = (Inl (Exc RuntimeError Inesperado), w)"
| "extraer_bucle env texto (intento # resto) w =
     (let w1 = anotar INFO (Intento intento MAX_REINTENTOS) w;
          r = cliente env (peticion texto) (length (llamadas w1));
          w2 = w1\<lparr>llamadas := llamadas w1 @ [peticion texto]\<rparr> in
      case cuerpo_intento (json_loads env) r of
        Inr datos \<Rightarrow> (Inr datos, anotar INFO JsonValido w2)
      | Inl e \<Rightarrow>
          if es_instancia e ValueError then
            (let w3 = anotar WARNING (ValidacionFallida (str_de e)) w2 in
             if intento = MAX_REINTENTOS
             then (Inl (Exc RuntimeError (FalloExtraccion MAX_REINTENTOS (str_de e))), w3)
             else extraer_bucle env texto resto w3)
          else
            (let w3 = anotar ERROR (ErrorDeAPI (str_de e)) w2 in
             if intento = MAX_REINTENTOS
             then (Inl (Exc RuntimeError (ErrorAPI MAX_REINTENTOS (str_de e))), w3)
             else extraer_bucle env texto resto w3))"

definition extraer_datos :: "entorno \<Rightarrow> string \<Rightarrow> mundo \<Rightarrow> (excepcion + json) \<times> mundo" where
  "extraer_datos env texto w = extraer_bucle env texto [1 ..< MAX_REINTENTOS + 1] w"

section \<open>\<open>procesar_archivos\<close>\<close>

text \<open>\<open>datetime.now().isoformat()\<close>\<close>

definition ahora :: "entorno \<Rightarrow> mundo \<Rightarrow> string \<times> mundo" where
  "ahora env w = (reloj env (lecturas_reloj w), w\<lparr>lecturas_reloj := lecturas_reloj w + 1\<rparr>)"

text \<open>Lines 282 to 285: the candidates, sorted by name.\<close>

definition candidatos :: "entorno \<Rightarrow> archivo list" where
  "candidatos env =
     sort_key nombre
       (filter (\<lambda>f. es_archivo f \<and> lower (suffix (nombre f)) \<in> EXTENSIONES_SOPORTADAS)
          (directorio env))"

text \<open>
  Lines 301 to 319, the body of the \<open>try\<close> for one document: the exception that leaves
  it, or the new result.
\<close>

definition procesar_uno :: "entorno \<Rightarrow> archivo \<Rightarrow> mundo \<Rightarrow> (excepcion + resultado) \<times> mundo" where
  "procesar_uno env f w =
     (case leer_archivo f of
        Inl e \<Rightarrow> (Inl e, w)
      | Inr texto \<Rightarrow>
          (case extraer_datos env texto w of
             (Inl e, w1) \<Rightarrow> (Inl e, w1)
           | (Inr datos, w1) \<Rightarrow>
               (let (t, w2) = ahora env w1;
                    res = \<lparr>archivo_origen = nombre f, datos_extraidos = datos,
                             procesado_en = t\<rparr>;
                    salida_individual = stem (nombre f) @ ''_resultado.json'';
                    w3 = escribir salida_individual (Individual datos) w2;
                    w4 = anotar INFO (Guardado salida_individual) w3
                in (Inr res, w4))))"

text \<open>
  Lines 298 to 323, the loop over the candidates: \<open>except RuntimeError\<close> records the
  failure and goes on; any other exception leaves the loop and the function.
\<close>

fun bucle_archivos :: "entorno \<Rightarrow> archivo list \<Rightarrow> resultado list \<Rightarrow> fallo list \<Rightarrow> mundo
    \<Rightarrow> (excepcion + resultado list \<times> fallo list) \<times> mundo" where
  "bucle_archivos env [] resultados errores w = (Inr (resultados, errores), w)"
| "bucle_archivos env (f # fs) resultados errores w =
     (let w1 = anotar INFO (Procesando (nombre f)) w in
      case procesar_uno env f w1 of
        (Inr res, w2) \<Rightarrow> bucle_archivos env fs (resultados @ [res]) errores w2
      | (Inl e, w2) \<Rightarrow>
          if es_instancia e RuntimeError then
            bucle_archivos env fs resultados
              (errores @ [\<lparr>archivo_fallido = nombre f, error_fallo = str_de e\<rparr>])
              (anotar ERROR (ErrorFatal (str_de e)) w2)
          else (Inl e, w2))"

definition procesar_archivos :: "entorno \<Rightarrow> mundo \<Rightarrow> (excepcion + resultado list) \<times> mundo" where
  "procesar_archivos env w =
     (case crear_cliente_openai env of
        Inl e \<Rightarrow> (Inl e, w)
      | Inr u \<Rightarrow>
          (let w1 = w\<lparr>dir_salida := True\<rparr>;
               archivos = candidatos env in
           if archivos = [] then (Inr [], anotar WARNING SinArchivos w1)
           else
             (let w2 = anotar INFO (Encontrados (length archivos)) w1 in
              case bucle_archivos env archivos [] [] w2 of
                (Inl e, w3) \<Rightarrow> (Inl e, w3)
              | (Inr (resultados, errores), w3) \<Rightarrow>
                  (let (t, w4) = ahora env w3;
                       resumen = Resumen (length resultados) (length errores) t
                                   resultados errores;
                       w5 = escribir ''resumen_completo.json'' resumen w4;
                       w6 = anotar INFO ResumenGuardado w5;
                       w7 = anotar INFO (ResumenFinal (length resultados) (length errores)) w6
                   in (Inr resultados, w7)))))"

section \<open>What the specification says of a record\<close>

text \<open>
  The strict calendar format of the specification: four digits, a hyphen, two digits, a
  hyphen, two digits, naming a day that exists.
\<close>

definition fecha_estricta :: "string \<Rightarrow> bool" where
  "fecha_estricta s =
     (length s = 10 \<and> es_digito (s ! 0) \<and> es_digito (s ! 1) \<and> es_digito (s ! 2) \<and> es_digito (s ! 3)
      \<and> s ! 4 = CHR ''-'' \<and> es_digito (s ! 5) \<and> es_digito (s ! 6)
      \<and> s ! 7 = CHR ''-'' \<and> es_digito (s ! 8) \<and> es_digito (s ! 9)
      \<and> fecha_valida (1000 * valor (s ! 0) + 100 * valor (s ! 1) + 10 * valor (s ! 2) + valor (s ! 3))
           (10 * valor (s ! 5) + valor (s ! 6)) (10 * valor (s ! 8) + valor (s ! 9)))"

text \<open>
  The shape that leaves the padding of the month and of the day open: a four-digit year,
  a hyphen, a month, a hyphen and a day, where the month is written with two digits or
  without its leading zero, the day likewise or with a space in place of the zero, and
  the three numbers name a day that exists. The strict format is the part of it where
  both are written with two digits.
\<close>

definition cifra :: "nat \<Rightarrow> char" where
  "cifra n = char_of (48 + n)"

definition dos_cifras :: "nat \<Rightarrow> string" where
  "dos_cifras n = [cifra (n div 10), cifra (n mod 10)]"

definition escrituras_mes :: "nat \<Rightarrow> string list" where
  "escrituras_mes m = (if m < 10 then [[cifra m], dos_cifras m] else [dos_cifras m])"

definition escrituras_dia :: "nat \<Rightarrow> string list" where
  "escrituras_dia d =
     (if d < 10 then [[cifra d], dos_cifras d, [CHR '' '', cifra d]] else [dos_cifras d])"

text \<open>The number that the digits of a text write.\<close>

definition numero :: "string \<Rightarrow> nat" where
  "numero w = foldl (\<lambda>n c. 10 * n + valor c) 0 (filter es_digito w)"

fun fecha_laxa :: "string \<Rightarrow> bool" where
  "fecha_laxa (a # b # c # d # g # r) =
     (es_digito a \<and> es_digito b \<and> es_digito c \<and> es_digito d \<and> g = CHR ''-'' \<and>
      (let wm = takeWhile (\<lambda>x. x \<noteq> CHR ''-'') r;
           resto = dropWhile (\<lambda>x. x \<noteq> CHR ''-'') r
       in case resto of
            [] \<Rightarrow> False
          | h # wd \<Rightarrow>
              wm \<in> set (escrituras_mes (numero wm)) \<and> wd \<in> set (escrituras_dia (numero wd))
              \<and> fecha_valida (1000 * valor a + 100 * valor b + 10 * valor c + valor d)
                   (numero wm) (numero wd)))"
| "fecha_laxa s = False"

text \<open>
  The record of the specification's data model: a name that is a non-empty string, an
  amount that is null or a number, a date in the strict format, one of the three tags.
\<close>

fun nombre_bien :: "json \<Rightarrow> bool" where
  "nombre_bien (JStr s) = (strip s \<noteq> [])"
| "nombre_bien x = False"

fun monto_bien :: "json \<Rightarrow> bool" where
  "monto_bien JNull = True"
| "monto_bien (JInt i) = True"
| "monto_bien (JFloat f) = True"
| "monto_bien x = False"

fun fecha_bien :: "json \<Rightarrow> bool" where
  "fecha_bien (JStr s) = fecha_estricta s"
| "fecha_bien x = False"

fun tipo_bien :: "json \<Rightarrow> bool" where
  "tipo_bien (JStr s) = (s \<in> TIPOS_VALIDOS)"
| "tipo_bien x = False"

definition registro_bien_formado :: "(string \<times> json) list \<Rightarrow> bool" where
  "registro_bien_formado kvs =
     (case (map_of kvs ''nombre_cliente'', map_of kvs ''monto'', map_of kvs ''fecha'',
            map_of kvs ''tipo_solicitud'') of
        (Some a, Some b, Some c, Some d) \<Rightarrow>
          nombre_bien a \<and> monto_bien b \<and> fecha_bien c \<and> tipo_bien d
      | _ \<Rightarrow> False)"

section \<open>Valid JSON texts\<close>

text \<open>
  The texts that \<open>json.loads\<close> accepts: the grammar of JSON, with the three
  extra constants \<open>NaN\<close>, \<open>Infinity\<close> and \<open>-Infinity\<close> that Python reads. A first pass
  cuts the text into tokens, one character at a time; a second pass checks the nesting.
\<close>

datatype token = TPunt char | TCadena | TAtomo string

datatype estado = Fuera | EnCadena | EnEscape | EnHex nat | EnAtomo string

definition es_blanco_json :: "char \<Rightarrow> bool" where
  "es_blanco_json c = (codigo c = 32 \<or> codigo c = 9 \<or> codigo c = 10 \<or> codigo c = 13)"

definition es_letra :: "char \<Rightarrow> bool" where
  "es_letra c = ((65 \<le> codigo c \<and> codigo c \<le> 90) \<or> (97 \<le> codigo c \<and> codigo c \<le> 122))"

definition es_hex :: "char \<Rightarrow> bool" where
  "es_hex c = (es_digito c \<or> (65 \<le> codigo c \<and> codigo c \<le> 70) \<or> (97 \<le> codigo c \<and> codigo c \<le> 102))"

text \<open>The characters of a number or of a constant.\<close>

definition car_atomo :: "char \<Rightarrow> bool" where
  "car_atomo c = (es_digito c \<or> es_letra c \<or> codigo c = 43 \<or> codigo c = 45 \<or> codigo c = 46)"

definition es_puntuacion :: "char \<Rightarrow> bool" where
  "es_puntuacion c = (c \<in> set ''{}[],:'')"

text \<open>The exponent of a number, or nothing.\<close>

fun exponente :: "string \<Rightarrow> bool" where
  "exponente [] = True"
| "exponente (e # r) =
     ((e = CHR ''e'' \<or> e = CHR ''E'') \<and>
      (let d = (case r of [] \<Rightarrow> [] | s # t \<Rightarrow> if s = CHR ''+'' \<or> s = CHR ''-'' then t else r)
       in d \<noteq> [] \<and> list_all es_digito d))"

text \<open>The fraction of a number, or nothing, then the exponent.\<close>

fun fraccion :: "string \<Rightarrow> bool" where
  "fraccion (p # d # r) =
     (if p = CHR ''.'' then es_digito d \<and> exponente (dropWhile es_digito r)
      else exponente (p # d # r))"
| "fraccion r = (r = [] )"

text \<open>\<^verbatim>\<open>-?(0|[1-9]\d*)(\.\d+)?([eE][-+]?\d+)?\<close>, matching the whole text.\<close>

fun sin_signo :: "string \<Rightarrow> bool" where
  "sin_signo [] = False"
| "sin_signo (c # r) =
     (if c = CHR ''0'' then fraccion r
      else if entre c 1 9 then fraccion (dropWhile es_digito r) else False)"

fun numero_valido :: "string \<Rightarrow> bool" where
  "numero_valido [] = False"
| "numero_valido (c # r) = (if c = CHR ''-'' then sin_signo r else sin_signo (c # r))"

definition atomo_valido :: "string \<Rightarrow> bool" where
  "atomo_valido w = (w \<in> set [''null'', ''true'', ''false'', ''NaN'', ''Infinity'', ''-Infinity'']
     \<or> numero_valido w)"

text \<open>One character read outside a string and outside a number.\<close>

definition paso_fuera :: "char \<Rightarrow> (estado \<times> token list) option" where
  "paso_fuera c =
     (if es_blanco_json c then Some (Fuera, [])
      else if es_puntuacion c then Some (Fuera, [TPunt c])
      else if c = CHR 0x22 then Some (EnCadena, [])
      else if car_atomo c then Some (EnAtomo [c], [])
      else None)"

text \<open>
  One character read in each state. Inside a string a control character is refused, a
  backslash must be followed by one of \<^verbatim>\<open>"\/bfnrt\<close> or by \<open>u\<close> and four hexadecimal
  digits. A number or constant ends at the first character that cannot belong to it.
\<close>

fun paso :: "estado \<Rightarrow> char \<Rightarrow> (estado \<times> token list) option" where
  "paso Fuera c = paso_fuera c"
| "paso EnCadena c =
     (if c = CHR 0x22 then Some (Fuera, [TCadena])
      else if c = CHR 0x5C then Some (EnEscape, [])
      else if codigo c < 32 then None
      else Some (EnCadena, []))"
| "paso EnEscape c =
     (if c \<in> set [CHR 0x22, CHR 0x5C, CHR ''/'', CHR ''b'', CHR ''f'', CHR ''n'', CHR ''r'', CHR ''t'']
      then Some (EnCadena, [])
      else if c = CHR ''u'' then Some (EnHex 4, [])
      else None)"
| "paso (EnHex n) c =
     (if es_hex c then Some (if n \<le> 1 then EnCadena else EnHex (n - 1), []) else None)"
| "paso (EnAtomo w) c =
     (if car_atomo c then Some (EnAtomo (c # w), [])
      else if atomo_valido (rev w) then
        (case paso_fuera c of
           None \<Rightarrow> None
         | Some (st, ts) \<Rightarrow> Some (st, TAtomo (rev w) # ts))
      else None)"

fun fin :: "estado \<Rightarrow> token list option" where
  "fin Fuera = Some []"
| "fin (EnAtomo w) = (if atomo_valido (rev w) then Some [TAtomo (rev w)] else None)"
| "fin st = None"

fun lexer :: "estado \<Rightarrow> string \<Rightarrow> token list option" where
  "lexer st [] = fin st"
| "lexer st (c # cs) =
     (case paso st c of
        None \<Rightarrow> None
      | Some (st', ts) \<Rightarrow> (case lexer st' cs of None \<Rightarrow> None | Some ts' \<Rightarrow> Some (ts @ ts')))"

text \<open>
  The nesting: what is expected next, and the stack of the open containers
  (\<open>True\<close> for an object, \<open>False\<close> for a list).
\<close>

datatype espera = EValor | EValorOCierre | EClaveOCierre | EClave | EDosPuntos | EComaOCierre | EFin

definition tras_valor :: "bool list \<Rightarrow> espera" where
  "tras_valor pila = (if pila = [] then EFin else EComaOCierre)"

fun gramatica :: "espera \<Rightarrow> bool list \<Rightarrow> token list \<Rightarrow> bool" where
  "gramatica e pila [] = (e = EFin \<and> pila = [])"
| "gramatica EValor pila (t # ts) =
     (case t of
        TCadena \<Rightarrow> gramatica (tras_valor pila) pila ts
      | TAtomo w \<Rightarrow> gramatica (tras_valor pila) pila ts
      | TPunt c \<Rightarrow>
          if c = CHR ''['' then gramatica EValorOCierre (False # pila) ts
          else if c = CHR ''{'' then gramatica EClaveOCierre (True # pila) ts
          else False)"
| "gramatica EValorOCierre pila (t # ts) =
     (case t of
        TCadena \<Rightarrow> gramatica (tras_valor pila) pila ts
      | TAtomo w \<Rightarrow> gramatica (tras_valor pila) pila ts
      | TPunt c \<Rightarrow>
          if c = CHR ''['' then gramatica EValorOCierre (False # pila) ts
          else if c = CHR ''{'' then gramatica EClaveOCierre (True # pila) ts
          else if c = CHR '']'' then
            (case pila of False # resto \<Rightarrow> gramatica (tras_valor resto) resto ts | _ \<Rightarrow> False)
          else False)"
| "gramatica EClaveOCierre pila (t # ts) =
     (case t of
        TCadena \<Rightarrow> gramatica EDosPuntos pila ts
      | TAtomo w \<Rightarrow> False
      | TPunt c \<Rightarrow>
          if c = CHR ''}'' then
            (case pila of True # resto \<Rightarrow> gramatica (tras_valor resto) resto ts | _ \<Rightarrow> False)
          else False)"
| "gramatica EClave pila (t # ts) =
     (case t of TCadena \<Rightarrow> gramatica EDosPuntos pila ts | _ \<Rightarrow> False)"
| "gramatica EDosPuntos pila (t # ts) =
     (case t of TPunt c \<Rightarrow> if c = CHR '':'' then gramatica EValor pila ts else False | _ \<Rightarrow> False)"
| "gramatica EComaOCierre pila (t # ts) =
     (case t of
        TPunt c \<Rightarrow>
          if c = CHR '','' then
            (case pila of
               True # resto \<Rightarrow> gramatica EClave pila ts
             | False # resto \<Rightarrow> gramatica EValor pila ts
             | [] \<Rightarrow> False)
          else if c = CHR '']'' then
            (case pila of False # resto \<Rightarrow> gramatica (tras_valor resto) resto ts | _ \<Rightarrow> False)
          else if c = CHR ''}'' then
            (case pila of True # resto \<Rightarrow> gramatica (tras_valor resto) resto ts | _ \<Rightarrow> False)
          else False
      | _ \<Rightarrow> False)"
| "gramatica EFin pila (t # ts) = False"

definition json_valido :: "string \<Rightarrow> bool" where
  "json_valido t = (case lexer Fuera t of None \<Rightarrow> False | Some ts \<Rightarrow> gramatica EValor [] ts)"

text \<open>The text \<open>t\<close> between code fences; \<open>info\<close> is what follows the opening fence on its line.\<close>

definition cercar :: "string \<Rightarrow> string \<Rightarrow> string" where
  "cercar info t = cerca @ info @ [salto] @ t @ [salto] @ cerca"

section \<open>Lines that look like a fence\<close>

definition acento :: char where
  "acento = CHR 0x60"

text \<open>The first character of the line that is not a space is not a backquote.\<close>

definition sin_acento :: "string \<Rightarrow> bool" where
  "sin_acento l = (case dropWhile es_espacio l of [] \<Rightarrow> True | c # r \<Rightarrow> c \<noteq> acento)"

definition rstrip :: "string \<Rightarrow> string" where
  "rstrip s = rev (dropWhile es_espacio (rev s))"

section \<open>What the specification says of extensions\<close>

text \<open>The table of the specification: the reader of each supported extension.\<close>

definition lector_de :: "string \<Rightarrow> archivo \<Rightarrow> excepcion + string" where
  "lector_de ext =
     (if ext = ''.txt'' then leer_txt else if ext = ''.pdf'' then leer_pdf
      else if ext = ''.docx'' then leer_docx else leer_excel)"

text \<open>Two characters that are the same letter of the alphabet A to Z, in either case, or equal.\<close>

definition mayuscula_de :: "char \<Rightarrow> char \<Rightarrow> bool" where
  "mayuscula_de A a = (97 \<le> codigo a \<and> codigo a \<le> 122 \<and> codigo A + 32 = codigo a)"

definition misma_letra :: "char \<Rightarrow> char \<Rightarrow> bool" where
  "misma_letra a b = (a = b \<or> mayuscula_de a b \<or> mayuscula_de b a)"

fun igual_sin_caja :: "string \<Rightarrow> string \<Rightarrow> bool" where
  "igual_sin_caja [] [] = True"
| "igual_sin_caja (a # s) (b # t) = (misma_letra a b \<and> igual_sin_caja s t)"
| "igual_sin_caja s t = False"

section \<open>Example inputs\<close>

definition registro_acme :: "json \<Rightarrow> json \<Rightarrow> (string \<times> json) list" where
  "registro_acme monto fecha = [(''nombre_cliente'', JStr ''Acme''), (''monto'', monto),
     (''fecha'', fecha), (''tipo_solicitud'', JStr ''Venta'')]"

definition registro_sin_tipo :: "(string \<times> json) list" where
  "registro_sin_tipo = [(''nombre_cliente'', JStr ''Acme''), (''monto'', JInt 100),
     (''fecha'', JStr ''2024-01-15'')]"

definition respuesta_lista :: string where
  "respuesta_lista =
     ''[{\"nombre_cliente\":\"X\",\"monto\":null,\"fecha\":\"2024-03-01\",\"tipo_solicitud\":\"Queja\"}]''"

definition registro_lista :: "(string \<times> json) list" where
  "registro_lista = [(''nombre_cliente'', JStr ''X''), (''monto'', JNull),
     (''fecha'', JStr ''2024-03-01''), (''tipo_solicitud'', JStr ''Queja'')]"

text \<open>A finite piece of \<open>json.loads\<close>: its value on the two texts of the example.\<close>

definition loads_lista :: "string \<Rightarrow> json option" where
  "loads_lista t = (if t = respuesta_lista then Some (JList [JDict registro_lista])
     else if t = ''[]'' then Some (JList []) else None)"

definition respuesta_numero_primero :: string where
  "respuesta_numero_primero =
     ''[1,{\"nombre_cliente\":\"X\",\"monto\":null,\"fecha\":\"2024-03-01\",\"tipo_solicitud\":\"Queja\"}]''"

definition respuesta_registro_primero :: string where
  "respuesta_registro_primero =
     ''[{\"nombre_cliente\":\"X\",\"monto\":null,\"fecha\":\"2024-03-01\",\"tipo_solicitud\":\"Queja\"},1]''"

definition respuesta_sin_tipo_primero :: string where
  "respuesta_sin_tipo_primero =
     ''[{\"nombre_cliente\":\"Acme\",\"monto\":100,\"fecha\":\"2024-01-15\"},{\"nombre_cliente\":\"X\",\"monto\":null,\"fecha\":\"2024-03-01\",\"tipo_solicitud\":\"Queja\"}]''"

text \<open>A finite piece of \<open>json.loads\<close>: its value on the list replies of the examples.\<close>

definition loads_varias :: "string \<Rightarrow> json option" where
  "loads_varias t =
     (if t = ''[]'' then Some (JList [])
      else if t = respuesta_lista then Some (JList [JDict registro_lista])
      else if t = respuesta_numero_primero then Some (JList [JInt 1, JDict registro_lista])
      else if t = respuesta_registro_primero then Some (JList [JDict registro_lista, JInt 1])
      else if t = respuesta_sin_tipo_primero
        then Some (JList [JDict registro_sin_tipo, JDict registro_lista])
      else None)"

text \<open>Files, a completion service and a run for the examples.\<close>

definition archivo_base :: "string \<Rightarrow> archivo" where
  "archivo_base n = \<lparr>nombre = n, es_archivo = True,
     read_text = (\<lambda>enc. Inl (UnicodeDecodeError, ''invalid start byte'')),
     pdf = Inl (OtraExcepcion, ''no es un PDF''), word = Inl (OtraExcepcion, ''no es un documento''),
     excel = Inl (OtraExcepcion, ''no es un libro'')\<rparr>"

definition a_pdf :: archivo where
  "a_pdf = (archivo_base ''a.pdf'')\<lparr>pdf := Inr [None]\<rparr>"

definition b_txt :: archivo where
  "b_txt = (archivo_base ''b.txt'')\<lparr>read_text := (\<lambda>enc. Inr ''Factura de Acme por 100'')\<rparr>"

definition cliente_ejemplo :: "string \<Rightarrow> nat \<Rightarrow> respuesta" where
  "cliente_ejemplo p i = (if i < 2 then Contenido ''Lo siento'' else Lanza (Exc OtraExcepcion (Texto ''timeout'')))"

definition env_ejemplo :: entorno where
  "env_ejemplo = \<lparr>api_key = Some ''sk-prueba'', directorio = [b_txt, a_pdf],
     cliente = cliente_ejemplo, json_loads = loads_lista, reloj = (\<lambda>n. ''2024-01-15T10:00:00'')\<rparr>"

definition notas_md :: archivo where
  "notas_md = archivo_base ''notas.md''"

definition env_vacio :: entorno where
  "env_vacio = env_ejemplo\<lparr>directorio := [notas_md, (archivo_base ''viejos.pdf'')\<lparr>es_archivo := False\<rparr>]\<rparr>"

definition informe :: archivo where
  "informe = (archivo_base ''INFORME.Pdf'')\<lparr>pdf := Inr [Some ''Queja de Juan'']\<rparr>"

definition env_informe :: entorno where
  "env_informe = env_ejemplo\<lparr>directorio := [notas_md, informe]\<rparr>"

section \<open>The field checks\<close>

lemma clave_presente: "map_of kvs k = Some v \<Longrightarrow> k \<in> set (map fst kvs)"
  by (metis map_of_eq_None_iff option.distinct(1) set_map)

lemma validar_campos_faltan:
  "\<not> CAMPOS_REQUERIDOS \<subseteq> set (map fst kvs) \<Longrightarrow>
   validar_campos kvs =
     Inl (Exc ValueError (CamposFaltantes (CAMPOS_REQUERIDOS - set (map fst kvs))))"
proof -
  assume "\<not> CAMPOS_REQUERIDOS \<subseteq> set (map fst kvs)"
  then have "CAMPOS_REQUERIDOS - set (map fst kvs) \<noteq> {}" by blast
  then show ?thesis unfolding validar_campos_def Let_def by (simp only: if_True simp_thms)
qed

lemma campo_cong_map_of: "map_of kvs' k = map_of kvs k \<Longrightarrow> campo kvs' k r = campo kvs k r"
  by (simp add: campo_def obtener_def)

lemma validar_campos_presentes:
  assumes "map_of kvs ''nombre_cliente'' = Some a" "map_of kvs ''monto'' = Some b"
    "map_of kvs ''fecha'' = Some c" "map_of kvs ''tipo_solicitud'' = Some d"
  shows "validar_campos kvs =
     (case revisar_nombre a of Some e \<Rightarrow> Inl e | None \<Rightarrow>
     (case revisar_monto b of Some e \<Rightarrow> Inl e | None \<Rightarrow>
     (case revisar_fecha c of Some e \<Rightarrow> Inl e | None \<Rightarrow>
     (case revisar_tipo d of Some e \<Rightarrow> Inl e | None \<Rightarrow> Inr (JDict kvs)))))"
proof -
  have "CAMPOS_REQUERIDOS \<subseteq> set (map fst kvs)"
    using assms[THEN clave_presente] by (simp add: CAMPOS_REQUERIDOS_def)
  then have e: "CAMPOS_REQUERIDOS - set (map fst kvs) = {}" by blast
  have c: "campo kvs ''nombre_cliente'' revisar_nombre = revisar_nombre a"
    "campo kvs ''monto'' revisar_monto = revisar_monto b"
    "campo kvs ''fecha'' revisar_fecha = revisar_fecha c"
    "campo kvs ''tipo_solicitud'' revisar_tipo = revisar_tipo d"
    by (simp_all add: campo_def obtener_def assms)
  show ?thesis
    unfolding validar_campos_def Let_def e c by simp
qed

lemma campos_acme:
  "map_of (registro_acme b v) ''nombre_cliente'' = Some (JStr ''Acme'')"
  "map_of (registro_acme b v) ''monto'' = Some b"
  "map_of (registro_acme b v) ''fecha'' = Some v"
  "map_of (registro_acme b v) ''tipo_solicitud'' = Some (JStr ''Venta'')"
  by (simp_all add: registro_acme_def)

lemma nombre_acme: "revisar_nombre (JStr ''Acme'') = None"
  by code_simp

lemma tipo_venta: "revisar_tipo (JStr ''Venta'') = None"
  by code_simp

section \<open>The calendar format\<close>

lemma largo_diez:
  assumes "length s = 10"
  obtains a b c d e f g h i j where "s = [a, b, c, d, e, f, g, h, i, j]"
proof -
  from assms have "s = [s ! 0, s ! 1, s ! 2, s ! 3, s ! 4, s ! 5, s ! 6, s ! 7, s ! 8, s ! 9]"
    by (intro nth_equalityI) (auto simp: nth_Cons' less_Suc_eq numeral_eq_Suc)
  then show ?thesis using that by blast
qed

lemma guion_no_digito: "\<not> es_digito CHR ''-''"
  by (simp add: es_digito_def codigo_def)

lemma digito_valor: "es_digito c \<Longrightarrow> valor c \<le> 9"
  by (auto simp: es_digito_def valor_def)

text \<open>A two-digit month followed by a hyphen is matched whole, by one alternative.\<close>

lemma mes_estricto:
  assumes "es_digito a" "es_digito b" "1 \<le> 10 * valor a + valor b" "10 * valor a + valor b \<le> 12"
  shows "concat (map (\<lambda>(m, r3). concat (map (F m) (literal CHR ''-'' r3)))
            (grupo_m (a # b # CHR ''-'' # r)))
         = F (10 * valor a + valor b) r"
proof -
  have nb: "b \<noteq> CHR ''-''" using assms(2) guion_no_digito by auto
  have "valor a = 0 \<or> valor a = 1" using assms(4) by arith
  then show ?thesis
    using assms nb digito_valor[OF assms(2)] by (auto simp: grupo_m_def entre_def)
qed

text \<open>A two-digit day at the end of the text: the first match takes both digits.\<close>

lemma dia_estricto:
  assumes "es_digito a" "es_digito b" "1 \<le> 10 * valor a + valor b" "10 * valor a + valor b \<le> 31"
  shows "\<exists>rest. grupo_d [a, b] = (10 * valor a + valor b, []) # rest"
proof -
  have "valor a = 0 \<or> valor a = 1 \<or> valor a = 2 \<or> valor a = 3" using assms(4) by arith
  then show ?thesis
    using assms digito_valor[OF assms(2)] by (auto simp: grupo_d_def entre_def)
qed

lemma dias_mes_le: "dias_mes y m \<le> 31"
  by (simp add: dias_mes_def)

lemma strptime_estricta:
  assumes "fecha_estricta s"
  shows "strptime s \<noteq> None"
proof -
  from assms have len: "length s = 10" by (simp add: fecha_estricta_def)
  then obtain a b c d e f g h i j where s: "s = [a, b, c, d, e, f, g, h, i, j]"
    by (rule largo_diez)
  from assms s have dig: "es_digito a" "es_digito b" "es_digito c" "es_digito d"
      "e = CHR ''-''" "es_digito f" "es_digito g" "h = CHR ''-''" "es_digito i" "es_digito j"
    and val: "fecha_valida (1000 * valor a + 100 * valor b + 10 * valor c + valor d)
           (10 * valor f + valor g) (10 * valor i + valor j)"
    by (simp_all add: fecha_estricta_def)
  from val have m: "1 \<le> 10 * valor f + valor g" "10 * valor f + valor g \<le> 12"
    and dd: "1 \<le> 10 * valor i + valor j" "10 * valor i + valor j \<le> 31"
    using dias_mes_le[of "1000 * valor a + 100 * valor b + 10 * valor c + valor d"
        "10 * valor f + valor g"]
    by (auto simp: fecha_valida_def)
  obtain rest where gd: "grupo_d [i, j] = (10 * valor i + valor j, []) # rest"
    using dia_estricto[OF dig(9) dig(10) dd] by blast
  have "regex_fecha s =
      (1000 * valor a + 100 * valor b + 10 * valor c + valor d,
       10 * valor f + valor g, 10 * valor i + valor j, []) #
      map (\<lambda>(d', r5). (1000 * valor a + 100 * valor b + 10 * valor c + valor d,
                         10 * valor f + valor g, d', r5)) rest"
    unfolding regex_fecha_def s using dig
    by (simp add: mes_estricto[OF dig(6) dig(7) m] gd)
  then show ?thesis using val by (simp add: strptime_def)
qed

lemma strptime_valida: "strptime s = Some (y, m, d) \<Longrightarrow> fecha_valida y m d"
  by (auto simp: strptime_def split: list.splits if_splits)

text \<open>Every text that the format parses has the shape that leaves the padding open.\<close>

lemma cifra_valor: "es_digito a \<Longrightarrow> cifra (valor a) = a"
  by (simp add: cifra_def valor_def es_digito_def codigo_def)

lemma cifra_digito:
  assumes "n \<le> 9"
  shows "es_digito (cifra n)" and "valor (cifra n) = n" and "cifra n \<noteq> CHR ''-''"
proof -
  have c: "codigo (cifra n) = 48 + n" using assms by (simp add: cifra_def codigo_def)
  show "es_digito (cifra n)" using assms by (simp add: es_digito_def c)
  show "valor (cifra n) = n" by (simp add: valor_def c)
  show "cifra n \<noteq> CHR ''-''" using c by (auto simp: codigo_def)
qed

text \<open>A writing of a month or of a day holds no hyphen and writes that number.\<close>

lemma dos_cifras_numero:
  assumes "n \<le> 99"
  shows "numero (dos_cifras n) = n" and "CHR ''-'' \<notin> set (dos_cifras n)"
proof -
  have a: "n div 10 \<le> 9" "n mod 10 \<le> 9" using assms by auto
  show "numero (dos_cifras n) = n"
    using cifra_digito(1,2)[OF a(1)] cifra_digito(1,2)[OF a(2)]
    by (simp add: numero_def dos_cifras_def)
  show "CHR ''-'' \<notin> set (dos_cifras n)"
    using cifra_digito(3)[OF a(1)] cifra_digito(3)[OF a(2)] by (auto simp: dos_cifras_def)
qed

lemma una_cifra_numero:
  assumes "n \<le> 9"
  shows "numero [cifra n] = n" and "numero [CHR '' '', cifra n] = n"
  using cifra_digito(1,2)[OF assms] by (simp_all add: numero_def es_digito_def codigo_def)

lemma escritura_mes_numero:
  assumes "w \<in> set (escrituras_mes m)" and "m \<le> 12"
  shows "numero w = m \<and> CHR ''-'' \<notin> set w"
proof -
  have l: "m \<le> 99" using assms(2) by simp
  show ?thesis
    using assms(1) dos_cifras_numero[OF l] una_cifra_numero[of m] cifra_digito(3)[of m]
    by (auto simp: escrituras_mes_def split: if_splits)
qed

lemma escritura_dia_numero:
  assumes "w \<in> set (escrituras_dia d)" and "d \<le> 31"
  shows "numero w = d"
proof -
  have l: "d \<le> 99" using assms(2) by simp
  show ?thesis
    using assms(1) dos_cifras_numero[OF l] una_cifra_numero[of d]
    by (auto simp: escrituras_dia_def split: if_splits)
qed

lemma dos_forma:
  "(v, r) \<in> set (dos l1 h1 l2 h2 s) \<Longrightarrow>
     \<exists>a b. s = a # b # r \<and> entre a l1 h1 \<and> entre b l2 h2 \<and> v = 10 * valor a + valor b"
  by (induction l1 h1 l2 h2 s rule: dos.induct) (auto split: if_splits)

lemma uno_forma:
  "(v, r) \<in> set (uno lo hi s) \<Longrightarrow> \<exists>a. s = a # r \<and> entre a lo hi \<and> v = valor a"
  by (induction lo hi s rule: uno.induct) (auto split: if_splits)

lemma espacio_uno_forma:
  "(v, r) \<in> set (espacio_uno s) \<Longrightarrow> \<exists>b. s = CHR '' '' # b # r \<and> entre b 1 9 \<and> v = valor b"
  by (induction s rule: espacio_uno.induct) (auto split: if_splits)

lemma dos_cifras_valor:
  assumes "es_digito a" and "es_digito b"
  shows "dos_cifras (10 * valor a + valor b) = [a, b]"
proof -
  have "valor b \<le> 9" using assms(2) by (rule digito_valor)
  then show ?thesis
    using cifra_valor[OF assms(1)] cifra_valor[OF assms(2)] by (simp add: dos_cifras_def)
qed

text \<open>What a match of the month group has read.\<close>

lemma grupo_m_forma:
  assumes "(m, r) \<in> set (grupo_m s)"
  shows "\<exists>w. s = w @ r \<and> w \<in> set (escrituras_mes m)"
proof -
  from assms consider "(m, r) \<in> set (dos 1 1 0 2 s)" | "(m, r) \<in> set (dos 0 0 1 9 s)"
    | "(m, r) \<in> set (uno 1 9 s)"
    by (auto simp: grupo_m_def)
  then show ?thesis
  proof cases
    case 1
    from dos_forma[OF this] obtain a b where s: "s = a # b # r" and e: "entre a 1 1" "entre b 0 2"
      and m: "m = 10 * valor a + valor b" by blast
    from e have d: "es_digito a" "es_digito b" and "valor a = 1" by (auto simp: entre_def)
    then have "\<not> m < 10" by (simp add: m)
    with s dos_cifras_valor[OF d] m show ?thesis by (simp add: escrituras_mes_def)
  next
    case 2
    from dos_forma[OF this] obtain a b where s: "s = a # b # r" and e: "entre a 0 0" "entre b 1 9"
      and m: "m = 10 * valor a + valor b" by blast
    from e have d: "es_digito a" "es_digito b" by (auto simp: entre_def)
    with s dos_cifras_valor[OF d] m show ?thesis by (simp add: escrituras_mes_def)
  next
    case 3
    from uno_forma[OF this] obtain a where s: "s = a # r" and e: "entre a 1 9" and m: "m = valor a"
      by blast
    from e have "valor a \<le> 9" "es_digito a" by (auto simp: entre_def)
    with s m cifra_valor[of a] show ?thesis by (simp add: escrituras_mes_def)
  qed
qed

text \<open>What a match of the day group has read.\<close>

lemma grupo_d_forma:
  assumes "(d, r) \<in> set (grupo_d s)"
  shows "\<exists>w. s = w @ r \<and> w \<in> set (escrituras_dia d)"
proof -
  from assms consider "(d, r) \<in> set (dos 3 3 0 1 s)" | "(d, r) \<in> set (dos 1 2 0 9 s)"
    | "(d, r) \<in> set (dos 0 0 1 9 s)" | "(d, r) \<in> set (uno 1 9 s)"
    | "(d, r) \<in> set (espacio_uno s)"
    by (auto simp: grupo_d_def)
  then show ?thesis
  proof cases
    case 1
    from dos_forma[OF this] obtain a b where s: "s = a # b # r" and e: "entre a 3 3" "entre b 0 1"
      and m: "d = 10 * valor a + valor b" by blast
    from e have dg: "es_digito a" "es_digito b" and "valor a = 3" by (auto simp: entre_def)
    then have "\<not> d < 10" by (simp add: m)
    with s dos_cifras_valor[OF dg] m show ?thesis by (simp add: escrituras_dia_def)
  next
    case 2
    from dos_forma[OF this] obtain a b where s: "s = a # b # r" and e: "entre a 1 2" "entre b 0 9"
      and m: "d = 10 * valor a + valor b" by blast
    from e have dg: "es_digito a" "es_digito b" and "1 \<le> valor a" by (auto simp: entre_def)
    then have "\<not> d < 10" by (simp add: m)
    with s dos_cifras_valor[OF dg] m show ?thesis by (simp add: escrituras_dia_def)
  next
    case 3
    from dos_forma[OF this] obtain a b where s: "s = a # b # r" and e: "entre a 0 0" "entre b 1 9"
      and m: "d = 10 * valor a + valor b" by blast
    from e have dg: "es_digito a" "es_digito b" by (auto simp: entre_def)
    with s dos_cifras_valor[OF dg] m show ?thesis by (simp add: escrituras_dia_def)
  next
    case 4
    from uno_forma[OF this] obtain a where s: "s = a # r" and e: "entre a 1 9" and m: "d = valor a"
      by blast
    from e have "valor a \<le> 9" "es_digito a" by (auto simp: entre_def)
    with s m cifra_valor[of a] show ?thesis by (simp add: escrituras_dia_def)
  next
    case 5
    from espacio_uno_forma[OF this] obtain b where s: "s = CHR '' '' # b # r" and e: "entre b 1 9"
      and m: "d = valor b" by blast
    from e have "valor b \<le> 9" "es_digito b" by (auto simp: entre_def)
    with s m cifra_valor[of b] show ?thesis by (simp add: escrituras_dia_def)
  qed
qed

text \<open>What a match of the whole expression has read.\<close>

lemma regex_fecha_forma:
  assumes "(y, m, d, r) \<in> set (regex_fecha s)"
  shows "\<exists>a b c e wm wd. s = a # b # c # e # CHR ''-'' # wm @ CHR ''-'' # wd @ r
     \<and> es_digito a \<and> es_digito b \<and> es_digito c \<and> es_digito e
     \<and> y = 1000 * valor a + 100 * valor b + 10 * valor c + valor e
     \<and> wm \<in> set (escrituras_mes m) \<and> wd \<in> set (escrituras_dia d)"
proof -
  from assms obtain r1 r2 r3 r4 where g: "(y, r1) \<in> set (grupo_Y s)" "r2 \<in> set (literal CHR ''-'' r1)"
    "(m, r3) \<in> set (grupo_m r2)" "r4 \<in> set (literal CHR ''-'' r3)" "(d, r) \<in> set (grupo_d r4)"
    by (auto simp: regex_fecha_def)
  from g(1) obtain a b c e where s: "s = a # b # c # e # r1"
    and dg: "es_digito a" "es_digito b" "es_digito c" "es_digito e"
    and y: "y = 1000 * valor a + 100 * valor b + 10 * valor c + valor e"
    by (induction s rule: grupo_Y.induct) (auto split: if_splits)
  from g(2) have r1: "r1 = CHR ''-'' # r2" by (cases r1) (auto split: if_splits)
  from g(4) have r3: "r3 = CHR ''-'' # r4" by (cases r3) (auto split: if_splits)
  from grupo_m_forma[OF g(3)] obtain wm where wm: "r2 = wm @ r3" "wm \<in> set (escrituras_mes m)" by blast
  from grupo_d_forma[OF g(5)] obtain wd where wd: "r4 = wd @ r" "wd \<in> set (escrituras_dia d)" by blast
  show ?thesis using s dg y r1 r3 wm wd by auto
qed

lemma strptime_laxa:
  assumes "strptime s = Some f"
  shows "fecha_laxa s"
proof -
  from assms obtain y m d rest where r: "regex_fecha s = (y, m, d, []) # rest" and v: "fecha_valida y m d"
    by (auto simp: strptime_def split: list.splits if_splits)
  then have "(y, m, d, []) \<in> set (regex_fecha s)" by simp
  from regex_fecha_forma[OF this] obtain a b c e wm wd where
    s: "s = a # b # c # e # CHR ''-'' # wm @ CHR ''-'' # wd"
    and dg: "es_digito a" "es_digito b" "es_digito c" "es_digito e"
    and y: "y = 1000 * valor a + 100 * valor b + 10 * valor c + valor e"
    and w: "wm \<in> set (escrituras_mes m)" "wd \<in> set (escrituras_dia d)"
    by auto
  from v have b: "m \<le> 12" "d \<le> 31"
    using dias_mes_le[of y m] by (auto simp: fecha_valida_def)
  from escritura_mes_numero[OF w(1) b(1)] have nm: "numero wm = m" "CHR ''-'' \<notin> set wm" by simp_all
  from escritura_dia_numero[OF w(2) b(2)] have nd: "numero wd = d" .
  have t: "takeWhile (\<lambda>x. x \<noteq> CHR ''-'') (wm @ CHR ''-'' # wd) = wm"
    using nm(2) by (induction wm) auto
  have dr: "dropWhile (\<lambda>x. x \<noteq> CHR ''-'') (wm @ CHR ''-'' # wd) = CHR ''-'' # wd"
    using nm(2) by (induction wm) auto
  show ?thesis
    unfolding s fecha_laxa.simps Let_def t dr using dg y v w nm(1) nd by simp
qed

lemma revisar_fecha_laxa: "\<not> fecha_laxa s \<Longrightarrow> revisar_fecha (JStr s) = Some (Exc ValueError (FechaInvalida s))"
  using strptime_laxa[of s] by (cases "strptime s") auto

lemma revisar_fecha_cadena:
  "revisar_fecha (JStr s) = None \<or> revisar_fecha (JStr s) = Some (Exc ValueError (FechaInvalida s))"
  by (cases "strptime s") auto

section \<open>Well-formed records are accepted\<close>

lemma nombre_bien_ok: "nombre_bien a \<Longrightarrow> revisar_nombre a = None"
  by (cases a) simp_all

lemma monto_bien_ok: "monto_bien b \<Longrightarrow> revisar_monto b = None"
  by (cases b) (simp_all add: revisar_monto_def)

lemma fecha_bien_ok: "fecha_bien c \<Longrightarrow> revisar_fecha c = None"
  using strptime_estricta by (cases c) (auto split: option.splits)

lemma tipo_bien_ok: "tipo_bien d \<Longrightarrow> revisar_tipo d = None"
  by (cases d) simp_all

lemma bien_formado_aceptado:
  assumes "registro_bien_formado kvs"
  shows "validar_campos kvs = Inr (JDict kvs)"
proof -
  from assms obtain a b c d where k: "map_of kvs ''nombre_cliente'' = Some a"
    "map_of kvs ''monto'' = Some b" "map_of kvs ''fecha'' = Some c"
    "map_of kvs ''tipo_solicitud'' = Some d"
    and b: "nombre_bien a" "monto_bien b" "fecha_bien c" "tipo_bien d"
    by (auto simp: registro_bien_formado_def split: option.splits)
  show ?thesis
    by (simp add: validar_campos_presentes[OF k] nombre_bien_ok[OF b(1)] monto_bien_ok[OF b(2)]
        fecha_bien_ok[OF b(3)] tipo_bien_ok[OF b(4)])
qed

lemma limpiar_lista: "limpiar respuesta_lista = respuesta_lista"
  unfolding respuesta_lista_def by code_simp

lemma bien_lista: "registro_bien_formado registro_lista"
  unfolding registro_lista_def by code_simp

lemma limpiar_vacia: "limpiar ''[]'' = ''[]''"
  by code_simp

section \<open>Missing and extra fields\<close>

lemma revisar_no_faltantes:
  "revisar_nombre x \<noteq> Some (Exc ValueError (CamposFaltantes S))"
  "revisar_monto x \<noteq> Some (Exc ValueError (CamposFaltantes S))"
  "revisar_fecha x \<noteq> Some (Exc ValueError (CamposFaltantes S))"
  "revisar_tipo x \<noteq> Some (Exc ValueError (CamposFaltantes S))"
  by (cases x; simp add: revisar_monto_def split: option.splits)+

lemma campo_no_faltantes:
  assumes "\<And>x. r x \<noteq> Some (Exc ValueError (CamposFaltantes S))"
  shows "campo kvs k r \<noteq> Some (Exc ValueError (CamposFaltantes S))"
  using assms by (simp add: campo_def obtener_def split: option.splits)

lemma presentes_no_faltantes:
  assumes "CAMPOS_REQUERIDOS \<subseteq> set (map fst kvs)"
  shows "validar_campos kvs \<noteq> Inl (Exc ValueError (CamposFaltantes S))"
proof -
  have e: "CAMPOS_REQUERIDOS - set (map fst kvs) = {}" using assms by blast
  show ?thesis
    unfolding validar_campos_def Let_def e
    using campo_no_faltantes[of revisar_nombre S kvs "''nombre_cliente''", OF revisar_no_faltantes(1)]
      campo_no_faltantes[of revisar_monto S kvs "''monto''", OF revisar_no_faltantes(2)]
      campo_no_faltantes[of revisar_fecha S kvs "''fecha''", OF revisar_no_faltantes(3)]
      campo_no_faltantes[of revisar_tipo S kvs "''tipo_solicitud''", OF revisar_no_faltantes(4)]
    by (auto split: option.splits)
qed

lemma claves_extra:
  assumes "CAMPOS_REQUERIDOS \<subseteq> set (map fst kvs)"
    and "\<forall>k\<in>CAMPOS_REQUERIDOS. map_of kvs' k = map_of kvs k"
  shows "case validar_campos kvs of Inl e \<Rightarrow> validar_campos kvs' = Inl e
         | Inr d \<Rightarrow> validar_campos kvs' = Inr (JDict kvs')"
proof -
  have sub: "CAMPOS_REQUERIDOS \<subseteq> set (map fst kvs')"
  proof
    fix k assume k: "k \<in> CAMPOS_REQUERIDOS"
    with assms(1) have "k \<in> set (map fst kvs)" by blast
    then have "map_of kvs k \<noteq> None" by (simp add: map_of_eq_None_iff)
    with assms(2) k have "map_of kvs' k \<noteq> None" by simp
    then show "k \<in> set (map fst kvs')" by (simp add: map_of_eq_None_iff)
  qed
  have eqs: "campo kvs' ''nombre_cliente'' revisar_nombre = campo kvs ''nombre_cliente'' revisar_nombre"
       "campo kvs' ''monto'' revisar_monto = campo kvs ''monto'' revisar_monto"
       "campo kvs' ''fecha'' revisar_fecha = campo kvs ''fecha'' revisar_fecha"
       "campo kvs' ''tipo_solicitud'' revisar_tipo = campo kvs ''tipo_solicitud'' revisar_tipo"
    using assms(2) by (auto intro!: campo_cong_map_of simp: CAMPOS_REQUERIDOS_def)
  have e1: "CAMPOS_REQUERIDOS - set (map fst kvs) = {}" using assms(1) by auto
  have e2: "CAMPOS_REQUERIDOS - set (map fst kvs') = {}" using sub by auto
  show ?thesis
    unfolding validar_campos_def Let_def e1 e2 eqs
    by (simp split: option.splits)
qed

lemma falta_tipo:
  assumes "{''nombre_cliente'', ''monto'', ''fecha''} \<subseteq> set (map fst kvs)"
    and "''tipo_solicitud'' \<notin> set (map fst kvs)"
  shows "CAMPOS_REQUERIDOS - set (map fst kvs) = {''tipo_solicitud''}"
  using assms unfolding CAMPOS_REQUERIDOS_def by auto

section \<open>The retry loop\<close>

lemma rango_intentos: "[1 ..< MAX_REINTENTOS + 1] = [1, 2, 3]"
  by (simp add: MAX_REINTENTOS_def upt_rec)

lemma llamadas_anotar: "llamadas (anotar n e w) = llamadas w"
  by (simp add: anotar_def)

lemma escritos_anotar: "escritos (anotar n e w) = escritos w"
  by (simp add: anotar_def)

text \<open>One failed attempt that is not the last: a request is sent and the loop goes on.\<close>

lemma intento_fallido:
  assumes "cuerpo_intento (json_loads env) (cliente env (peticion texto) (length (llamadas w))) = Inl e"
    and "intento \<noteq> MAX_REINTENTOS"
  shows "\<exists>w1. extraer_bucle env texto (intento # resto) w = extraer_bucle env texto resto w1
     \<and> llamadas w1 = llamadas w @ [peticion texto] \<and> escritos w1 = escritos w"
  using assms by (fastforce simp: Let_def llamadas_anotar escritos_anotar)

lemma intento_final:
  assumes "cuerpo_intento (json_loads env) (cliente env (peticion texto) (length (llamadas w))) = Inl e"
  shows "\<exists>w1. extraer_bucle env texto (MAX_REINTENTOS # resto) w =
      (Inl (Exc RuntimeError (if es_instancia e ValueError
          then FalloExtraccion MAX_REINTENTOS (str_de e) else ErrorAPI MAX_REINTENTOS (str_de e))), w1)
     \<and> llamadas w1 = llamadas w @ [peticion texto] \<and> escritos w1 = escritos w"
  using assms by (fastforce simp: Let_def llamadas_anotar escritos_anotar)

lemma limpiar_lo_siento: "limpiar ''Lo siento'' = ''Lo siento''"
  by code_simp

lemma loads_lo_siento: "loads_lista ''Lo siento'' = None"
  by (simp add: loads_lista_def respuesta_lista_def)

section \<open>Extensions and readers\<close>

lemma minuscula_misma:
  assumes "misma_letra a c" and "minuscula c = c"
  shows "minuscula a = c"
proof -
  consider "a = c" | "mayuscula_de a c" | "mayuscula_de c a" "a \<noteq> c"
    using assms(1) unfolding misma_letra_def by blast
  then show ?thesis
  proof cases
    case 1
    then show ?thesis using assms(2) by simp
  next
    case 2
    then have r: "65 \<le> codigo a" "codigo a \<le> 90" "codigo a + 32 = codigo c"
      by (auto simp: mayuscula_de_def)
    then have "minuscula a = char_of (codigo c)" by (simp add: minuscula_def)
    then show ?thesis by (simp add: codigo_def)
  next
    case 3
    then have r: "65 \<le> codigo c" "codigo c \<le> 90" "codigo c + 32 = codigo a"
      by (auto simp: mayuscula_de_def)
    then have "minuscula c = char_of (codigo a)" by (simp add: minuscula_def)
    then have "minuscula c = a" by (simp add: codigo_def)
    with assms(2) 3(2) show ?thesis by simp
  qed
qed

lemma lower_igual_sin_caja:
  "igual_sin_caja s e \<Longrightarrow> \<forall>c\<in>set e. minuscula c = c \<Longrightarrow> lower s = e"
proof (induction s e rule: igual_sin_caja.induct)
  case 1
  then show ?case by (simp add: lower_def)
next
  case (2 a s b t)
  then show ?case using minuscula_misma[of a b] by (simp add: lower_def)
qed simp_all

lemma extensiones_minusculas:
  "e \<in> EXTENSIONES_SOPORTADAS \<Longrightarrow> \<forall>c\<in>set e. minuscula c = c"
  unfolding EXTENSIONES_SOPORTADAS_def
  by (auto simp: minuscula_def codigo_def)

lemma leer_archivo_soportado:
  assumes "ext \<in> EXTENSIONES_SOPORTADAS" and "lower (suffix (nombre f)) = ext"
  shows "leer_archivo f = lector_de ext f"
  using assms unfolding EXTENSIONES_SOPORTADAS_def leer_archivo_def lector_de_def Let_def
  by auto

lemma candidatos_set:
  "set (candidatos env) =
     {f \<in> set (directorio env). es_archivo f \<and> lower (suffix (nombre f)) \<in> EXTENSIONES_SOPORTADAS}"
  by (auto simp: candidatos_def)

lemma lectores_sin_formato:
  "leer_txt f \<noteq> Inl (Exc ValueError (FormatoNoSoportado ext n))"
  "leer_pdf f \<noteq> Inl (Exc ValueError (FormatoNoSoportado ext n))"
  "leer_docx f \<noteq> Inl (Exc ValueError (FormatoNoSoportado ext n))"
  "leer_excel f \<noteq> Inl (Exc ValueError (FormatoNoSoportado ext n))"
proof -
  have "leer_txt_bucle f encs \<noteq> Inl (Exc ValueError (FormatoNoSoportado ext n))" for encs
    by (induction encs) (auto simp: externo_def split: sum.splits)
  then show "leer_txt f \<noteq> Inl (Exc ValueError (FormatoNoSoportado ext n))"
    unfolding leer_txt_def by blast
  show "leer_pdf f \<noteq> Inl (Exc ValueError (FormatoNoSoportado ext n))"
    by (simp add: leer_pdf_def externo_def Let_def split: sum.splits)
  show "leer_docx f \<noteq> Inl (Exc ValueError (FormatoNoSoportado ext n))"
    by (simp add: leer_docx_def externo_def Let_def split: sum.splits)
  show "leer_excel f \<noteq> Inl (Exc ValueError (FormatoNoSoportado ext n))"
    by (simp add: leer_excel_def externo_def Let_def split: sum.splits)
qed

lemma extraer_bucle_error:
  "fst (extraer_bucle env texto intentos w) = Inl e \<Longrightarrow> clase_de e = RuntimeError"
proof (induction intentos arbitrary: w)
  case Nil
  then show ?case by auto
next
  case (Cons i rest)
  then show ?case
    by (auto simp: Let_def split: sum.splits if_splits)
qed

lemma extraer_datos_error:
  "extraer_datos env texto w = (Inl e, w') \<Longrightarrow> es_instancia e RuntimeError"
  using extraer_bucle_error[of env texto "[1 ..< MAX_REINTENTOS + 1]" w e]
  by (simp add: extraer_datos_def es_instancia_def)

text \<open>An exception that leaves the body for one document and is not a \<open>RuntimeError\<close>
  was raised by the reader.\<close>

lemma procesar_uno_error:
  assumes "procesar_uno env f w = (Inl e, w')" and "\<not> es_instancia e RuntimeError"
  shows "leer_archivo f = Inl e"
  using assms extraer_datos_error[of env _ w e]
  by (auto simp: procesar_uno_def Let_def split: sum.splits prod.splits)

lemma bucle_archivos_error:
  "fst (bucle_archivos env fs rs es w) = Inl e \<Longrightarrow> \<exists>f\<in>set fs. leer_archivo f = Inl e"
proof (induction fs arbitrary: rs es w)
  case Nil
  then show ?case by simp
next
  case (Cons f fs)
  obtain r w2 where p: "procesar_uno env f (anotar INFO (Procesando (nombre f)) w) = (r, w2)"
    by (cases "procesar_uno env f (anotar INFO (Procesando (nombre f)) w)")
  show ?case
  proof (cases r)
    case (Inr res)
    with Cons p show ?thesis by (auto simp: Let_def)
  next
    case (Inl e')
    show ?thesis
    proof (cases "es_instancia e' RuntimeError")
      case True
      with Cons p Inl show ?thesis by (auto simp: Let_def)
    next
      case False
      with Cons.prems p Inl have "e' = e" by (simp add: Let_def)
      with procesar_uno_error[of env f _ e' w2] p Inl False show ?thesis by auto
    qed
  qed
qed

lemma procesar_archivos_error:
  assumes "fst (procesar_archivos env w) = Inl e"
  shows "e = Exc EnvironmentError ApiKeyNoConfigurada \<or> (\<exists>f\<in>set (candidatos env). leer_archivo f = Inl e)"
proof (cases "crear_cliente_openai env")
  case (Inl e')
  then have "e' = Exc EnvironmentError ApiKeyNoConfigurada"
    by (auto simp: crear_cliente_openai_def split: option.splits if_splits)
  with Inl assms show ?thesis by (simp add: procesar_archivos_def)
next
  case (Inr u)
  show ?thesis
  proof (cases "candidatos env = []")
    case True
    with Inr assms show ?thesis by (simp add: procesar_archivos_def)
  next
    case False
    obtain r w3 where b: "bucle_archivos env (candidatos env) [] []
        (anotar INFO (Encontrados (length (candidatos env))) (w\<lparr>dir_salida := True\<rparr>)) = (r, w3)"
      by (cases "bucle_archivos env (candidatos env) [] []
        (anotar INFO (Encontrados (length (candidatos env))) (w\<lparr>dir_salida := True\<rparr>))")
    with Inr False assms have "r = Inl e"
      by (cases r) (auto simp: procesar_archivos_def Let_def split: prod.splits)
    with b have "fst (bucle_archivos env (candidatos env) [] []
        (anotar INFO (Encontrados (length (candidatos env))) (w\<lparr>dir_salida := True\<rparr>))) = Inl e"
      by simp
    from bucle_archivos_error[OF this] show ?thesis by blast
  qed
qed

lemma sufijo_a_pdf: "lower (suffix (nombre a_pdf)) = ''.pdf''"
  unfolding a_pdf_def archivo_base_def by code_simp

lemma a_pdf_candidato: "a_pdf \<in> set (candidatos env_ejemplo)"
  by (simp add: candidatos_set env_ejemplo_def sufijo_a_pdf EXTENSIONES_SOPORTADAS_def)
     (simp add: a_pdf_def archivo_base_def)

lemma sufijo_informe: "igual_sin_caja (suffix (nombre informe)) ''.pdf''"
  unfolding informe_def archivo_base_def by code_simp

text \<open>A \<open>RuntimeError\<close> that leaves the body for one document is recorded and the loop goes on.\<close>

lemma fallo_fatal_continua:
  assumes "procesar_uno env f (anotar INFO (Procesando (nombre f)) w) = (Inl e, w2)"
    and "es_instancia e RuntimeError"
  shows "bucle_archivos env (f # fs) rs es w =
     bucle_archivos env fs rs (es @ [\<lparr>archivo_fallido = nombre f, error_fallo = str_de e\<rparr>])
       (anotar ERROR (ErrorFatal (str_de e)) w2)"
  using assms by (simp add: Let_def)

section \<open>Code fences around a valid text\<close>

lemma strip_rstrip: "strip s = rstrip (dropWhile es_espacio s)"
  by (simp add: strip_def rstrip_def)

lemma rstrip_Cons: "\<not> es_espacio a \<Longrightarrow> rstrip (a # s) = a # rstrip s"
  by (simp add: rstrip_def dropWhile_append3)

lemma rstrip_Nil: "rstrip [] = []"
  by (simp add: rstrip_def)

lemma cerca_acento: "cerca = [acento, acento, acento]"
  by (simp add: cerca_def acento_def)

lemma acento_no_espacio: "\<not> es_espacio acento"
  by (simp add: es_espacio_def acento_def codigo_def)

lemma sin_acento_limpia: "sin_acento l \<Longrightarrow> \<not> startswith (strip l) cerca"
proof (cases "dropWhile es_espacio l")
  case Nil
  then have "strip l = []" unfolding strip_rstrip by (simp only: rstrip_Nil)
  then show ?thesis by (simp add: startswith_def cerca_def)
next
  case (Cons c r)
  assume s: "sin_acento l"
  have "\<not> es_espacio c" using Cons by (metis dropWhile_eq_Cons_conv)
  then have "strip l = c # rstrip r" by (simp add: strip_rstrip Cons rstrip_Cons)
  moreover have "c \<noteq> acento" using s Cons by (simp add: sin_acento_def)
  ultimately show ?thesis by (simp add: startswith_def cerca_acento)
qed

lemma sin_acento_Cons_espacio: "es_espacio c \<Longrightarrow> sin_acento (c # l) = sin_acento l"
  by (simp add: sin_acento_def)

lemma sin_acento_Cons_otro: "\<not> es_espacio c \<Longrightarrow> c \<noteq> acento \<Longrightarrow> sin_acento (c # l)"
  by (simp add: sin_acento_def)

lemma sin_acento_Nil: "sin_acento []"
  by (simp add: sin_acento_def)

lemma split_nl_no_vacio: "split_nl s \<noteq> []"
  by (induction s) (auto split: list.splits)

lemma split_nl_salto: "split_nl (salto # cs) = [] # split_nl cs"
  by simp

lemma split_nl_otro: "c \<noteq> salto \<Longrightarrow> split_nl (c # cs) = (c # hd (split_nl cs)) # tl (split_nl cs)"
  using split_nl_no_vacio[of cs] by (cases "split_nl cs") simp_all

text \<open>The characters that may stand outside a string.\<close>

lemma blanco_json: "es_blanco_json c \<Longrightarrow> c = salto \<or> (es_espacio c \<and> c \<noteq> salto)"
  by (auto simp: es_blanco_json_def es_espacio_def salto_def codigo_def)

lemma salto_blanco: "es_blanco_json salto"
  by (simp add: es_blanco_json_def salto_def codigo_def)

lemma salto_espacio: "es_espacio salto"
  by (simp add: es_espacio_def salto_def codigo_def)

lemma blanco_espacio: "es_blanco_json c \<Longrightarrow> es_espacio c"
  by (auto simp: es_blanco_json_def es_espacio_def)

lemma puntuacion_visible: "es_puntuacion c \<Longrightarrow> \<not> es_espacio c \<and> c \<noteq> acento \<and> c \<noteq> salto"
  by (auto simp: es_puntuacion_def es_espacio_def acento_def salto_def codigo_def)

lemma comilla_visible: "\<not> es_espacio (CHR 0x22) \<and> CHR 0x22 \<noteq> acento \<and> CHR 0x22 \<noteq> salto"
  by (simp add: es_espacio_def acento_def salto_def codigo_def)

lemma atomo_visible: "car_atomo c \<Longrightarrow> \<not> es_espacio c \<and> c \<noteq> acento \<and> c \<noteq> salto"
  by (auto simp: car_atomo_def es_digito_def es_letra_def es_espacio_def acento_def salto_def codigo_def)

text \<open>
  A character accepted outside a string is a newline that leaves the reader outside, a
  space that leaves it outside, or a visible character other than a backquote.
\<close>

lemma paso_fuera_casos:
  assumes "paso_fuera c = Some (st', ts)"
  shows "(c = salto \<and> st' = Fuera) \<or> (c \<noteq> salto \<and> es_espacio c \<and> st' = Fuera)
       \<or> (c \<noteq> salto \<and> \<not> es_espacio c \<and> c \<noteq> acento)"
  using assms blanco_json[of c] puntuacion_visible[of c] comilla_visible atomo_visible[of c]
  by (auto simp: paso_fuera_def split: if_splits)

text \<open>A newline is accepted only where the reader is left outside.\<close>

lemma paso_salto:
  assumes "paso st salto = Some (st', ts)"
  shows "st' = Fuera"
proof (cases st)
  case Fuera
  with assms show ?thesis by (simp add: paso_fuera_def salto_blanco)
next
  case EnCadena
  with assms show ?thesis by (simp add: salto_def codigo_def split: if_splits)
next
  case EnEscape
  with assms show ?thesis by (simp add: salto_def split: if_splits)
next
  case (EnHex n)
  with assms show ?thesis
    by (simp add: es_hex_def es_digito_def salto_def codigo_def split: if_splits)
next
  case (EnAtomo w)
  with assms atomo_visible[of salto] show ?thesis
    by (auto simp: paso_fuera_def salto_blanco split: if_splits option.splits)
qed

lemma lexer_lineas:
  "lexer st t = Some ts \<Longrightarrow>
     list_all sin_acento (tl (split_nl t)) \<and> (st = Fuera \<longrightarrow> sin_acento (hd (split_nl t)))"
proof (induction t arbitrary: st ts)
  case Nil
  then show ?case by (simp add: sin_acento_Nil)
next
  case (Cons c cs)
  from Cons.prems obtain st' ts1 ts2 where p: "paso st c = Some (st', ts1)"
    and l: "lexer st' cs = Some ts2"
    by (auto split: option.splits)
  note ih = Cons.IH[OF l]
  have ne: "split_nl cs \<noteq> []" by (rule split_nl_no_vacio)
  show ?case
  proof (cases "c = salto")
    case True
    with p have "st' = Fuera" using paso_salto by blast
    with ih ne have "list_all sin_acento (split_nl cs)"
      by (cases "split_nl cs") simp_all
    with True show ?thesis by (simp add: sin_acento_Nil)
  next
    case False
    have rest: "list_all sin_acento (tl (split_nl (c # cs)))"
      using ih by (simp add: split_nl_otro[OF False] del: split_nl.simps)
    have first: "sin_acento (hd (split_nl (c # cs)))" if f: "st = Fuera"
    proof -
      from p f have "paso_fuera c = Some (st', ts1)" by simp
      from paso_fuera_casos[OF this] False
      consider "es_espacio c" "st' = Fuera" | "\<not> es_espacio c" "c \<noteq> acento" by blast
      then show ?thesis
      proof cases
        case 1
        with ih show ?thesis
          by (simp add: split_nl_otro[OF False] sin_acento_Cons_espacio del: split_nl.simps)
      next
        case 2
        then show ?thesis
          by (simp add: split_nl_otro[OF False] sin_acento_Cons_otro del: split_nl.simps)
      qed
    qed
    from rest first show ?thesis by blast
  qed
qed

text \<open>The first character of a valid text that is not a space is not a backquote.\<close>

lemma lexer_inicio: "lexer Fuera t = Some ts \<Longrightarrow> sin_acento t"
proof (induction t arbitrary: ts)
  case Nil
  then show ?case by (simp add: sin_acento_Nil)
next
  case (Cons c cs)
  from Cons.prems obtain st' ts1 ts2 where p: "paso_fuera c = Some (st', ts1)"
    and l: "lexer st' cs = Some ts2"
    by (auto split: option.splits)
  from paso_fuera_casos[OF p] salto_espacio
  consider "es_espacio c" "st' = Fuera" | "\<not> es_espacio c" "c \<noteq> acento" by auto
  then show ?case
  proof cases
    case 1
    with Cons.IH l show ?thesis by (simp add: sin_acento_Cons_espacio)
  next
    case 2
    then show ?thesis by (simp add: sin_acento_Cons_otro)
  qed
qed

lemma strip_visible:
  assumes "s \<noteq> []" and "\<not> es_espacio (hd s)" and "\<not> es_espacio (last s)"
  shows "strip s = s"
proof -
  have a: "dropWhile es_espacio s = s" using assms(1,2) by (cases s) simp_all
  have "rev s \<noteq> []" "\<not> es_espacio (hd (rev s))" using assms(1,3) by (simp_all add: hd_rev)
  then have "dropWhile es_espacio (rev s) = rev s" by (cases "rev s") simp_all
  then show ?thesis by (simp add: strip_def a)
qed

lemma split_nl_sin_salto: "salto \<notin> set u \<Longrightarrow> split_nl u = [u]"
  by (induction u) auto

lemma split_nl_prefijo: "salto \<notin> set pre \<Longrightarrow> split_nl (pre @ salto # rest) = pre # split_nl rest"
  by (induction pre) auto

lemma split_nl_sufijo: "salto \<notin> set u \<Longrightarrow> split_nl (t @ salto # u) = split_nl t @ [u]"
proof (induction t)
  case Nil
  then show ?case by (simp add: split_nl_sin_salto)
next
  case (Cons c cs)
  obtain l ls where s: "split_nl cs = l # ls"
    using split_nl_no_vacio[of cs] by (cases "split_nl cs") auto
  with Cons show ?case by simp
qed

lemma join_Cons: "ls \<noteq> [] \<Longrightarrow> join sep (l # ls) = l @ sep @ join sep ls"
  by (cases ls) simp_all

lemma join_split_nl: "join [salto] (split_nl t) = t"
proof (induction t)
  case Nil
  then show ?case by simp
next
  case (Cons c cs)
  obtain l ls where s: "split_nl cs = l # ls"
    using split_nl_no_vacio[of cs] by (cases "split_nl cs") auto
  show ?case
  proof (cases "c = salto")
    case True
    with Cons s show ?thesis by (simp add: join_Cons)
  next
    case False
    with Cons s show ?thesis by (cases ls) simp_all
  qed
qed

lemma linea_de_cerca: "startswith (strip (cerca @ info)) cerca"
proof -
  have "strip (cerca @ info) = acento # acento # acento # rstrip info"
    by (simp add: strip_rstrip cerca_acento acento_no_espacio rstrip_Cons)
  then show ?thesis by (simp add: startswith_def cerca_acento)
qed

lemma strip_cercar: "strip (cercar info t) = cercar info t"
  by (rule strip_visible) (simp_all add: cercar_def cerca_acento acento_no_espacio)

lemma lineas_cercar:
  "salto \<notin> set info \<Longrightarrow> split_nl (cercar info t) = (cerca @ info) # split_nl t @ [cerca]"
proof -
  assume i: "salto \<notin> set info"
  have a: "salto \<notin> set (cerca @ info)" using i by (simp add: cerca_def salto_def)
  have b: "salto \<notin> set cerca" by (simp add: cerca_def salto_def)
  have "cercar info t = (cerca @ info) @ salto # (t @ salto # cerca)" by (simp add: cercar_def)
  then show ?thesis
    by (simp only: split_nl_prefijo[OF a] split_nl_sufijo[OF b])
qed

lemma lineas_validas:
  assumes "lexer Fuera t = Some ts"
  shows "filter (\<lambda>l. \<not> startswith (strip l) cerca) (split_nl t) = split_nl t"
proof -
  obtain l ls where s: "split_nl t = l # ls"
    using split_nl_no_vacio[of t] by (cases "split_nl t") auto
  from lexer_lineas[OF assms] s have "list_all sin_acento (split_nl t)" by simp
  then have "\<forall>l\<in>set (split_nl t). \<not> startswith (strip l) cerca"
    using sin_acento_limpia by (auto simp: list_all_iff)
  then show ?thesis by (simp only: filter_True)
qed

lemma limpiar_valido:
  assumes "lexer Fuera t = Some ts"
  shows "limpiar t = strip t"
  using sin_acento_limpia[OF lexer_inicio[OF assms]] by (simp add: limpiar_def)

lemma limpiar_cercar:
  assumes "lexer Fuera t = Some ts" and "salto \<notin> set info"
  shows "limpiar (cercar info t) = strip t"
proof -
  have c: "startswith (cercar info t) cerca" by (simp add: startswith_def cercar_def cerca_def)
  have d: "strip cerca = cerca"
    by (rule strip_visible) (simp_all add: cerca_acento acento_no_espacio)
  have "filter (\<lambda>l. \<not> startswith (strip l) cerca) (split_nl (cercar info t)) = split_nl t"
    using linea_de_cerca[of info] lineas_validas[OF assms(1)]
    by (simp add: lineas_cercar[OF assms(2)] d startswith_def)
  then show ?thesis
    by (simp add: limpiar_def strip_cercar c join_split_nl)
qed

lemma lista_valida: "json_valido respuesta_lista"
  unfolding respuesta_lista_def by code_simp

section \<open>Accepted records\<close>

lemma revisar_nombre_None: "revisar_nombre a = None \<Longrightarrow> \<exists>n. a = JStr n \<and> strip n \<noteq> []"
  by (cases a) (auto split: if_splits)

lemma revisar_monto_None:
  "revisar_monto b = None \<Longrightarrow> (\<forall>s. b \<noteq> JStr s) \<and> (\<forall>l. b \<noteq> JList l) \<and> (\<forall>d. b \<noteq> JDict d)"
  by (cases b) (auto simp: revisar_monto_def split: if_splits)

lemma revisar_fecha_None: "revisar_fecha c = None \<Longrightarrow> \<exists>s. c = JStr s \<and> fecha_laxa s"
  using strptime_laxa by (cases c) (auto split: option.splits)

lemma revisar_tipo_None: "revisar_tipo d = None \<Longrightarrow> \<exists>tp. d = JStr tp \<and> tp \<in> TIPOS_VALIDOS"
  by (cases d) (auto split: if_splits)

text \<open>What an accepted dictionary holds.\<close>

lemma validar_campos_aceptado:
  assumes "validar_campos kvs = Inr d"
  shows "d = JDict kvs \<and> CAMPOS_REQUERIDOS \<subseteq> set (map fst kvs)
    \<and> (\<exists>n. map_of kvs ''nombre_cliente'' = Some (JStr n) \<and> strip n \<noteq> [])
    \<and> (\<exists>b. map_of kvs ''monto'' = Some b \<and> (\<forall>s. b \<noteq> JStr s) \<and> (\<forall>l. b \<noteq> JList l)
          \<and> (\<forall>q. b \<noteq> JDict q))
    \<and> (\<exists>s. map_of kvs ''fecha'' = Some (JStr s) \<and> fecha_laxa s)
    \<and> (\<exists>tp. map_of kvs ''tipo_solicitud'' = Some (JStr tp) \<and> tp \<in> TIPOS_VALIDOS)"
proof -
  have sub: "CAMPOS_REQUERIDOS \<subseteq> set (map fst kvs)"
  proof (rule ccontr)
    assume "\<not> CAMPOS_REQUERIDOS \<subseteq> set (map fst kvs)"
    from validar_campos_faltan[OF this] assms show False by simp
  qed
  have pres: "\<exists>v. map_of kvs k = Some v" if "k \<in> CAMPOS_REQUERIDOS" for k
  proof -
    from that sub have "k \<in> set (map fst kvs)" by blast
    then have "map_of kvs k \<noteq> None" by (simp add: map_of_eq_None_iff)
    then show ?thesis by auto
  qed
  obtain a where a: "map_of kvs ''nombre_cliente'' = Some a"
    using pres[of "''nombre_cliente''"] by (auto simp: CAMPOS_REQUERIDOS_def)
  obtain b where b: "map_of kvs ''monto'' = Some b"
    using pres[of "''monto''"] by (auto simp: CAMPOS_REQUERIDOS_def)
  obtain c where c: "map_of kvs ''fecha'' = Some c"
    using pres[of "''fecha''"] by (auto simp: CAMPOS_REQUERIDOS_def)
  obtain t where t: "map_of kvs ''tipo_solicitud'' = Some t"
    using pres[of "''tipo_solicitud''"] by (auto simp: CAMPOS_REQUERIDOS_def)
  from assms have r: "revisar_nombre a = None" "revisar_monto b = None" "revisar_fecha c = None"
    "revisar_tipo t = None" and d: "d = JDict kvs"
    unfolding validar_campos_presentes[OF a b c t] by (auto split: option.splits)
  from revisar_nombre_None[OF r(1)] revisar_monto_None[OF r(2)] revisar_fecha_None[OF r(3)]
    revisar_tipo_None[OF r(4)] a b c t d sub
  show ?thesis by auto
qed

lemma limpiar_varias:
  "limpiar respuesta_numero_primero = respuesta_numero_primero"
  "limpiar respuesta_registro_primero = respuesta_registro_primero"
  "limpiar respuesta_sin_tipo_primero = respuesta_sin_tipo_primero"
  unfolding respuesta_numero_primero_def respuesta_registro_primero_def
    respuesta_sin_tipo_primero_def
  by code_simp+

lemma loads_varias_valores:
  "loads_varias ''[]'' = Some (JList [])"
  "loads_varias respuesta_lista = Some (JList [JDict registro_lista])"
  "loads_varias respuesta_numero_primero = Some (JList [JInt 1, JDict registro_lista])"
  "loads_varias respuesta_registro_primero = Some (JList [JDict registro_lista, JInt 1])"
  "loads_varias respuesta_sin_tipo_primero = Some (JList [JDict registro_sin_tipo, JDict registro_lista])"
  by (simp_all add: loads_varias_def respuesta_lista_def respuesta_numero_primero_def
      respuesta_registro_primero_def respuesta_sin_tipo_primero_def)

section \<open>Properties of the Schema Validator\<close>

text \<open>
  C2. The claim: the amount is accepted when it is null or a number, and validation
  fails whenever it is a string or a boolean. The code tests
  \<open>isinstance(datos["monto"], (int, float))\<close>, and a Python \<open>bool\<close> is an \<open>int\<close>: the
  record below, whose amount is \<open>true\<close>, passes every check and is returned.
\<close>

theorem monto_booleano_aceptado:
  "validar_datos (JDict (registro_acme (JBool True) (JStr ''2024-01-15'')))
     = Inr (JDict (registro_acme (JBool True) (JStr ''2024-01-15'')))"
  unfolding registro_acme_def by code_simp

text \<open>
  C4, as stated, fails in two ways. A date whose month or day lacks its leading zero is
  accepted (\<open>2024-1-5\<close>, and \<open>2024-01- 5\<close> with a space in place of the zero),
  although the messages of the code itself name the format \<open>YYYY-MM-DD\<close>. And a date
  that is not a string is refused with a message that does not name the value.
\<close>

theorem fecha_contraejemplo:
  "validar_datos (JDict (registro_acme (JInt 100) (JStr ''2024-1-5'')))
     = Inr (JDict (registro_acme (JInt 100) (JStr ''2024-1-5'')))
   \<and> \<not> fecha_estricta ''2024-1-5''
   \<and> validar_datos (JDict (registro_acme (JInt 100) (JStr ''2024-01- 5'')))
     = Inr (JDict (registro_acme (JInt 100) (JStr ''2024-01- 5'')))
   \<and> \<not> fecha_estricta ''2024-01- 5''
   \<and> validar_datos (JDict (registro_acme (JInt 100) (JInt 20240115)))
     = Inl (Exc ValueError FechaNoString)"
  unfolding registro_acme_def by code_simp

text \<open>
  C4, amended. For an object that has the four fields and whose name and amount pass:
  a date that is not a string fails with the fixed message \<open>FechaNoString\<close>; a date
  string in the strict format (four-digit year from 0001, two-digit month, two-digit
  day, hyphens, a day that exists) passes the date check, so that the outcome is that
  of the check on the type that follows; a date string that is not a four-digit year, a
  month and a day separated by hyphens naming a day that exists, whatever the padding of
  the month and of the day, fails with \<open>FechaInvalida\<close> carrying that string; a date
  string never fails with another error of the date; and the object is accepted only
  when its date is a string of that shape. Whether a date without the padding is
  accepted is left open.
\<close>

theorem validacion_fecha:
  assumes "map_of kvs ''nombre_cliente'' = Some a" and "revisar_nombre a = None"
    and "map_of kvs ''monto'' = Some b" and "revisar_monto b = None"
    and "map_of kvs ''fecha'' = Some v" and "map_of kvs ''tipo_solicitud'' = Some t"
  shows "((\<forall>s. v \<noteq> JStr s) \<longrightarrow> validar_datos (JDict kvs) = Inl (Exc ValueError FechaNoString))
    \<and> (\<forall>s. v = JStr s \<and> fecha_estricta s \<longrightarrow>
          validar_datos (JDict kvs) =
            (case revisar_tipo t of Some e \<Rightarrow> Inl e | None \<Rightarrow> Inr (JDict kvs)))
    \<and> (\<forall>s. v = JStr s \<and> \<not> fecha_laxa s \<longrightarrow>
          validar_datos (JDict kvs) = Inl (Exc ValueError (FechaInvalida s)))
    \<and> (\<forall>s. v = JStr s \<longrightarrow>
          validar_datos (JDict kvs) = Inl (Exc ValueError (FechaInvalida s))
          \<or> validar_datos (JDict kvs) =
            (case revisar_tipo t of Some e \<Rightarrow> Inl e | None \<Rightarrow> Inr (JDict kvs)))
    \<and> (\<forall>d. validar_datos (JDict kvs) = Inr d \<longrightarrow> (\<exists>s. v = JStr s \<and> fecha_laxa s))"
proof -
  have vc: "validar_datos (JDict kvs) =
     (case revisar_fecha v of Some e \<Rightarrow> Inl e | None \<Rightarrow>
     (case revisar_tipo t of Some e \<Rightarrow> Inl e | None \<Rightarrow> Inr (JDict kvs)))"
    by (simp add: validar_campos_presentes[OF assms(1,3,5,6)] assms(2,4))
  have p1: "(\<forall>s. v \<noteq> JStr s) \<longrightarrow> validar_datos (JDict kvs) = Inl (Exc ValueError FechaNoString)"
    unfolding vc by (cases v) simp_all
  have p2: "\<forall>s. v = JStr s \<and> fecha_estricta s \<longrightarrow>
          validar_datos (JDict kvs) =
            (case revisar_tipo t of Some e \<Rightarrow> Inl e | None \<Rightarrow> Inr (JDict kvs))"
  proof (intro allI impI)
    fix s assume h: "v = JStr s \<and> fecha_estricta s"
    then have "revisar_fecha v = None" using fecha_bien_ok[of v] by simp
    then show "validar_datos (JDict kvs) =
        (case revisar_tipo t of Some e \<Rightarrow> Inl e | None \<Rightarrow> Inr (JDict kvs))"
      unfolding vc by simp
  qed
  have p3: "\<forall>s. v = JStr s \<and> \<not> fecha_laxa s \<longrightarrow>
          validar_datos (JDict kvs) = Inl (Exc ValueError (FechaInvalida s))"
  proof (intro allI impI)
    fix s assume h: "v = JStr s \<and> \<not> fecha_laxa s"
    then have "revisar_fecha v = Some (Exc ValueError (FechaInvalida s))"
      using revisar_fecha_laxa[of s] by simp
    then show "validar_datos (JDict kvs) = Inl (Exc ValueError (FechaInvalida s))"
      unfolding vc by simp
  qed
  have p4: "\<forall>s. v = JStr s \<longrightarrow>
          validar_datos (JDict kvs) = Inl (Exc ValueError (FechaInvalida s))
          \<or> validar_datos (JDict kvs) =
            (case revisar_tipo t of Some e \<Rightarrow> Inl e | None \<Rightarrow> Inr (JDict kvs))"
  proof (intro allI impI)
    fix s assume h: "v = JStr s"
    from revisar_fecha_cadena[of s] h
    show "validar_datos (JDict kvs) = Inl (Exc ValueError (FechaInvalida s))
          \<or> validar_datos (JDict kvs) =
            (case revisar_tipo t of Some e \<Rightarrow> Inl e | None \<Rightarrow> Inr (JDict kvs))"
      unfolding vc by auto
  qed
  have p5: "\<forall>d. validar_datos (JDict kvs) = Inr d \<longrightarrow> (\<exists>s. v = JStr s \<and> fecha_laxa s)"
  proof (intro allI impI)
    fix d assume ok: "validar_datos (JDict kvs) = Inr d"
    with p1 obtain s where s: "v = JStr s" by auto
    have "fecha_laxa s"
    proof (rule ccontr)
      assume "\<not> fecha_laxa s"
      with p3 s ok show False by simp
    qed
    with s show "\<exists>s. v = JStr s \<and> fecha_laxa s" by blast
  qed
  show ?thesis using p1 p2 p3 p4 p5 by blast
qed

theorem validacion_fecha_witness:
  "fecha_estricta ''2024-01-15''
   \<and> validar_datos (JDict (registro_acme (JInt 100) (JStr ''2024-01-15'')))
       = Inr (JDict (registro_acme (JInt 100) (JStr ''2024-01-15'')))
   \<and> fecha_laxa ''2024-01-15''
   \<and> \<not> fecha_laxa ''2024-02-30''
   \<and> validar_datos (JDict (registro_acme (JInt 100) (JStr ''2024-02-30'')))
       = Inl (Exc ValueError (FechaInvalida ''2024-02-30''))
   \<and> \<not> fecha_laxa ''2024-01-15 y mas''
   \<and> validar_datos (JDict (registro_acme (JInt 100) (JStr ''2024-01-15 y mas'')))
       = Inl (Exc ValueError (FechaInvalida ''2024-01-15 y mas''))
   \<and> \<not> fecha_laxa ''15/01/2024''
   \<and> validar_datos (JDict (registro_acme (JInt 100) (JStr ''15/01/2024'')))
       = Inl (Exc ValueError (FechaInvalida ''15/01/2024''))
   \<and> validar_datos (JDict (registro_acme (JInt 100) JNull)) = Inl (Exc ValueError FechaNoString)"
proof -
  have m: "revisar_monto (JInt 100) = None" by code_simp
  have e: "fecha_estricta ''2024-01-15''" by code_simp
  have n1: "\<not> fecha_laxa ''2024-02-30''" by code_simp
  have n2: "\<not> fecha_laxa ''2024-01-15 y mas''" by code_simp
  have n3: "\<not> fecha_laxa ''15/01/2024''" by code_simp
  note t = validacion_fecha[OF campos_acme(1) nombre_acme campos_acme(2) m campos_acme(3) campos_acme(4)]
  note estricta = t[THEN conjunct2, THEN conjunct1, rule_format]
  note fuera = t[THEN conjunct2, THEN conjunct2, THEN conjunct1, rule_format]
  note aceptada = t[THEN conjunct2, THEN conjunct2, THEN conjunct2, THEN conjunct2, rule_format]
  note no_cadena = t[THEN conjunct1, rule_format]
  have tv: "revisar_tipo (JStr ''Venta'') = None" by (rule tipo_venta)
  have r1: "validar_datos (JDict (registro_acme (JInt 100) (JStr ''2024-01-15'')))
       = Inr (JDict (registro_acme (JInt 100) (JStr ''2024-01-15'')))"
    using estricta[of "JStr ''2024-01-15''" "''2024-01-15''"] e unfolding tv by simp
  obtain s where "JStr ''2024-01-15'' = JStr s" and "fecha_laxa s"
    using aceptada[OF r1] by blast
  then have l: "fecha_laxa ''2024-01-15''" by simp
  have r2: "validar_datos (JDict (registro_acme (JInt 100) (JStr ''2024-02-30'')))
       = Inl (Exc ValueError (FechaInvalida ''2024-02-30''))"
    using fuera[of "JStr ''2024-02-30''" "''2024-02-30''"] n1 by simp
  have r3: "validar_datos (JDict (registro_acme (JInt 100) (JStr ''2024-01-15 y mas'')))
       = Inl (Exc ValueError (FechaInvalida ''2024-01-15 y mas''))"
    using fuera[of "JStr ''2024-01-15 y mas''" "''2024-01-15 y mas''"] n2 by simp
  have r4: "validar_datos (JDict (registro_acme (JInt 100) (JStr ''15/01/2024'')))
       = Inl (Exc ValueError (FechaInvalida ''15/01/2024''))"
    using fuera[of "JStr ''15/01/2024''" "''15/01/2024''"] n3 by simp
  have r5: "validar_datos (JDict (registro_acme (JInt 100) JNull)) = Inl (Exc ValueError FechaNoString)"
    using no_cadena[of JNull] by simp
  show ?thesis by (intro conjI) (rule e r1 l n1 r2 n2 r3 n3 r4 r5)+
qed

text \<open>
  C5. For every parsed object: when a required field is absent the validator fails with
  \<open>CamposFaltantes\<close> carrying exactly the required fields that the object lacks; when
  none is absent it never fails with \<open>CamposFaltantes\<close>; two objects that agree on the
  four required fields, whatever other keys they hold, fail with the same error or are
  both returned; and an object that has the name, the amount and the date but no
  \<open>tipo_solicitud\<close> fails with \<open>CamposFaltantes\<close> naming \<open>tipo_solicitud\<close> alone.
\<close>

theorem campos_requeridos:
  "(\<not> CAMPOS_REQUERIDOS \<subseteq> set (map fst kvs) \<longrightarrow>
      validar_datos (JDict kvs) =
        Inl (Exc ValueError (CamposFaltantes (CAMPOS_REQUERIDOS - set (map fst kvs)))))
   \<and> (CAMPOS_REQUERIDOS \<subseteq> set (map fst kvs) \<longrightarrow>
        (\<forall>S. validar_datos (JDict kvs) \<noteq> Inl (Exc ValueError (CamposFaltantes S))))
   \<and> (CAMPOS_REQUERIDOS \<subseteq> set (map fst kvs)
        \<and> (\<forall>k\<in>CAMPOS_REQUERIDOS. map_of kvs' k = map_of kvs k) \<longrightarrow>
        (case validar_datos (JDict kvs) of
           Inl e \<Rightarrow> validar_datos (JDict kvs') = Inl e
         | Inr d \<Rightarrow> validar_datos (JDict kvs') = Inr (JDict kvs')))
   \<and> ({''nombre_cliente'', ''monto'', ''fecha''} \<subseteq> set (map fst kvs)
        \<and> ''tipo_solicitud'' \<notin> set (map fst kvs) \<longrightarrow>
        validar_datos (JDict kvs) = Inl (Exc ValueError (CamposFaltantes {''tipo_solicitud''})))"
proof -
  have p4: "{''nombre_cliente'', ''monto'', ''fecha''} \<subseteq> set (map fst kvs)
        \<and> ''tipo_solicitud'' \<notin> set (map fst kvs) \<longrightarrow>
        validar_datos (JDict kvs) = Inl (Exc ValueError (CamposFaltantes {''tipo_solicitud''}))"
  proof
    assume h: "{''nombre_cliente'', ''monto'', ''fecha''} \<subseteq> set (map fst kvs)
        \<and> ''tipo_solicitud'' \<notin> set (map fst kvs)"
    then have e: "CAMPOS_REQUERIDOS - set (map fst kvs) = {''tipo_solicitud''}"
      using falta_tipo by blast
    then have "\<not> CAMPOS_REQUERIDOS \<subseteq> set (map fst kvs)" by blast
    from validar_campos_faltan[OF this] e
    show "validar_datos (JDict kvs) = Inl (Exc ValueError (CamposFaltantes {''tipo_solicitud''}))"
      by simp
  qed
  have p1: "\<not> CAMPOS_REQUERIDOS \<subseteq> set (map fst kvs) \<longrightarrow>
      validar_datos (JDict kvs) =
        Inl (Exc ValueError (CamposFaltantes (CAMPOS_REQUERIDOS - set (map fst kvs))))"
    using validar_campos_faltan[of kvs] by simp
  have p2: "CAMPOS_REQUERIDOS \<subseteq> set (map fst kvs) \<longrightarrow>
        (\<forall>S. validar_datos (JDict kvs) \<noteq> Inl (Exc ValueError (CamposFaltantes S)))"
    using presentes_no_faltantes[of kvs] by simp
  have p3: "CAMPOS_REQUERIDOS \<subseteq> set (map fst kvs)
        \<and> (\<forall>k\<in>CAMPOS_REQUERIDOS. map_of kvs' k = map_of kvs k) \<longrightarrow>
        (case validar_datos (JDict kvs) of
           Inl e \<Rightarrow> validar_datos (JDict kvs') = Inl e
         | Inr d \<Rightarrow> validar_datos (JDict kvs') = Inr (JDict kvs'))"
    unfolding validar_datos.simps validar_objeto.simps using claves_extra[of kvs kvs'] by blast
  show ?thesis
    using p1 p2 p3 p4 by blast
qed

theorem campos_requeridos_witness:
  "{''nombre_cliente'', ''monto'', ''fecha''} \<subseteq> set (map fst registro_sin_tipo)
   \<and> ''tipo_solicitud'' \<notin> set (map fst registro_sin_tipo)
   \<and> \<not> CAMPOS_REQUERIDOS \<subseteq> set (map fst registro_sin_tipo)
   \<and> validar_datos (JDict registro_sin_tipo)
       = Inl (Exc ValueError (CamposFaltantes {''tipo_solicitud''}))
   \<and> CAMPOS_REQUERIDOS \<subseteq> set (map fst (registro_acme (JInt 100) (JStr ''2024-01-15'')))
   \<and> validar_datos (JDict (registro_acme (JInt 100) (JStr ''2024-01-15'')))
       = Inr (JDict (registro_acme (JInt 100) (JStr ''2024-01-15'')))
   \<and> validar_datos (JDict (registro_acme (JInt 100) (JStr ''2024-01-15'') @ [(''nota'', JStr ''urgente'')]))
       = Inr (JDict (registro_acme (JInt 100) (JStr ''2024-01-15'') @ [(''nota'', JStr ''urgente'')]))"
proof -
  have a: "{''nombre_cliente'', ''monto'', ''fecha''} \<subseteq> set (map fst registro_sin_tipo)"
    "''tipo_solicitud'' \<notin> set (map fst registro_sin_tipo)"
    "\<not> CAMPOS_REQUERIDOS \<subseteq> set (map fst registro_sin_tipo)"
    by (simp_all add: registro_sin_tipo_def CAMPOS_REQUERIDOS_def)
  have b: "CAMPOS_REQUERIDOS \<subseteq> set (map fst (registro_acme (JInt 100) (JStr ''2024-01-15'')))"
    by (simp add: registro_acme_def CAMPOS_REQUERIDOS_def)
  have c: "\<forall>k\<in>CAMPOS_REQUERIDOS.
      map_of (registro_acme (JInt 100) (JStr ''2024-01-15'') @ [(''nota'', JStr ''urgente'')]) k
      = map_of (registro_acme (JInt 100) (JStr ''2024-01-15'')) k"
    by (simp add: CAMPOS_REQUERIDOS_def registro_acme_def)
  have d: "validar_datos (JDict (registro_acme (JInt 100) (JStr ''2024-01-15'')))
       = Inr (JDict (registro_acme (JInt 100) (JStr ''2024-01-15'')))"
    unfolding registro_acme_def by code_simp
  have r1: "validar_datos (JDict registro_sin_tipo)
       = Inl (Exc ValueError (CamposFaltantes {''tipo_solicitud''}))"
    using a campos_requeridos[of registro_sin_tipo registro_sin_tipo] by blast
  have "case validar_datos (JDict (registro_acme (JInt 100) (JStr ''2024-01-15''))) of
           Inl e \<Rightarrow> validar_datos (JDict (registro_acme (JInt 100) (JStr ''2024-01-15'')
               @ [(''nota'', JStr ''urgente'')])) = Inl e
         | Inr d \<Rightarrow> validar_datos (JDict (registro_acme (JInt 100) (JStr ''2024-01-15'')
               @ [(''nota'', JStr ''urgente'')]))
             = Inr (JDict (registro_acme (JInt 100) (JStr ''2024-01-15'')
               @ [(''nota'', JStr ''urgente'')]))"
    using b c campos_requeridos[of "registro_acme (JInt 100) (JStr ''2024-01-15'')"
        "registro_acme (JInt 100) (JStr ''2024-01-15'') @ [(''nota'', JStr ''urgente'')]"]
    by blast
  then have r2: "validar_datos (JDict (registro_acme (JInt 100) (JStr ''2024-01-15'')
               @ [(''nota'', JStr ''urgente'')]))
             = Inr (JDict (registro_acme (JInt 100) (JStr ''2024-01-15'')
               @ [(''nota'', JStr ''urgente'')]))"
    unfolding d by simp
  show ?thesis
    using a b d r1 r2 by blast
qed

text \<open>
  C6. When the reply parses to a list: an empty list fails with \<open>ListaVacia\<close>. A list
  that is not empty is judged by its first element alone, whatever follows it: a first
  element that is not an object fails with \<open>NoEsObjeto\<close> naming its type; a first
  element that is an object without a required field fails with \<open>CamposFaltantes\<close>
  naming the fields it lacks; a first element that is a well-formed record is returned;
  and whenever the reply is accepted, what is returned is the first element, an object
  that holds the four fields with a name that is a non-empty string, an amount that is
  not a string, a list or an object, a date of the calendar shape and one of the three
  tags.
\<close>

theorem lista_primer_elemento:
  "(loads (limpiar r) = Some (JList []) \<longrightarrow> validar_json loads r = Inl (Exc ValueError ListaVacia))
 \<and> (loads (limpiar r) = Some (JList (x # xs)) \<and> (\<forall>kvs. x \<noteq> JDict kvs) \<longrightarrow>
      validar_json loads r = Inl (Exc ValueError (NoEsObjeto (nombre_tipo x))))
 \<and> (loads (limpiar r) = Some (JList (JDict kvs # xs)) \<and> \<not> CAMPOS_REQUERIDOS \<subseteq> set (map fst kvs) \<longrightarrow>
      validar_json loads r =
        Inl (Exc ValueError (CamposFaltantes (CAMPOS_REQUERIDOS - set (map fst kvs)))))
 \<and> (loads (limpiar r) = Some (JList (JDict kvs # xs)) \<and> registro_bien_formado kvs \<longrightarrow>
      validar_json loads r = Inr (JDict kvs))
 \<and> (loads (limpiar r) = Some (JList (x # xs)) \<and> validar_json loads r = Inr d \<longrightarrow>
      d = x \<and> (\<exists>kvs. x = JDict kvs \<and> CAMPOS_REQUERIDOS \<subseteq> set (map fst kvs)
        \<and> (\<exists>n. map_of kvs ''nombre_cliente'' = Some (JStr n) \<and> strip n \<noteq> [])
        \<and> (\<exists>b. map_of kvs ''monto'' = Some b \<and> (\<forall>s. b \<noteq> JStr s) \<and> (\<forall>l. b \<noteq> JList l)
              \<and> (\<forall>q. b \<noteq> JDict q))
        \<and> (\<exists>s. map_of kvs ''fecha'' = Some (JStr s) \<and> fecha_laxa s)
        \<and> (\<exists>tp. map_of kvs ''tipo_solicitud'' = Some (JStr tp) \<and> tp \<in> TIPOS_VALIDOS)))"
proof -
  have p1: "loads (limpiar r) = Some (JList []) \<longrightarrow>
      validar_json loads r = Inl (Exc ValueError ListaVacia)"
    by (simp add: validar_json_def)
  have p2: "loads (limpiar r) = Some (JList (x # xs)) \<and> (\<forall>kvs. x \<noteq> JDict kvs) \<longrightarrow>
      validar_json loads r = Inl (Exc ValueError (NoEsObjeto (nombre_tipo x)))"
  proof
    assume h: "loads (limpiar r) = Some (JList (x # xs)) \<and> (\<forall>kvs. x \<noteq> JDict kvs)"
    then have "validar_json loads r = validar_objeto x" by (simp add: validar_json_def)
    also have "\<dots> = Inl (Exc ValueError (NoEsObjeto (nombre_tipo x)))"
      using h by (cases x) simp_all
    finally show "validar_json loads r = Inl (Exc ValueError (NoEsObjeto (nombre_tipo x)))" .
  qed
  have p3: "loads (limpiar r) = Some (JList (JDict kvs # xs))
      \<and> \<not> CAMPOS_REQUERIDOS \<subseteq> set (map fst kvs) \<longrightarrow>
      validar_json loads r =
        Inl (Exc ValueError (CamposFaltantes (CAMPOS_REQUERIDOS - set (map fst kvs))))"
  proof
    assume h: "loads (limpiar r) = Some (JList (JDict kvs # xs))
      \<and> \<not> CAMPOS_REQUERIDOS \<subseteq> set (map fst kvs)"
    then have "validar_json loads r = validar_campos kvs" by (simp add: validar_json_def)
    also have "\<dots> = Inl (Exc ValueError (CamposFaltantes (CAMPOS_REQUERIDOS - set (map fst kvs))))"
      using h validar_campos_faltan by blast
    finally show "validar_json loads r =
      Inl (Exc ValueError (CamposFaltantes (CAMPOS_REQUERIDOS - set (map fst kvs))))" .
  qed
  have p4: "loads (limpiar r) = Some (JList (JDict kvs # xs)) \<and> registro_bien_formado kvs \<longrightarrow>
      validar_json loads r = Inr (JDict kvs)"
  proof
    assume h: "loads (limpiar r) = Some (JList (JDict kvs # xs)) \<and> registro_bien_formado kvs"
    then have "validar_json loads r = validar_campos kvs" by (simp add: validar_json_def)
    also have "\<dots> = Inr (JDict kvs)" using h bien_formado_aceptado by blast
    finally show "validar_json loads r = Inr (JDict kvs)" .
  qed
  have p5: "loads (limpiar r) = Some (JList (x # xs)) \<and> validar_json loads r = Inr d \<longrightarrow>
      d = x \<and> (\<exists>kvs. x = JDict kvs \<and> CAMPOS_REQUERIDOS \<subseteq> set (map fst kvs)
        \<and> (\<exists>n. map_of kvs ''nombre_cliente'' = Some (JStr n) \<and> strip n \<noteq> [])
        \<and> (\<exists>b. map_of kvs ''monto'' = Some b \<and> (\<forall>s. b \<noteq> JStr s) \<and> (\<forall>l. b \<noteq> JList l)
              \<and> (\<forall>q. b \<noteq> JDict q))
        \<and> (\<exists>s. map_of kvs ''fecha'' = Some (JStr s) \<and> fecha_laxa s)
        \<and> (\<exists>tp. map_of kvs ''tipo_solicitud'' = Some (JStr tp) \<and> tp \<in> TIPOS_VALIDOS))"
  proof
    assume h: "loads (limpiar r) = Some (JList (x # xs)) \<and> validar_json loads r = Inr d"
    then have v: "validar_objeto x = Inr d" by (auto simp: validar_json_def)
    then obtain kvs where x: "x = JDict kvs" by (cases x) simp_all
    with v have "validar_campos kvs = Inr d" by simp
    from validar_campos_aceptado[OF this] x
    show "d = x \<and> (\<exists>kvs. x = JDict kvs \<and> CAMPOS_REQUERIDOS \<subseteq> set (map fst kvs)
        \<and> (\<exists>n. map_of kvs ''nombre_cliente'' = Some (JStr n) \<and> strip n \<noteq> [])
        \<and> (\<exists>b. map_of kvs ''monto'' = Some b \<and> (\<forall>s. b \<noteq> JStr s) \<and> (\<forall>l. b \<noteq> JList l)
              \<and> (\<forall>q. b \<noteq> JDict q))
        \<and> (\<exists>s. map_of kvs ''fecha'' = Some (JStr s) \<and> fecha_laxa s)
        \<and> (\<exists>tp. map_of kvs ''tipo_solicitud'' = Some (JStr tp) \<and> tp \<in> TIPOS_VALIDOS))"
      by simp
  qed
  show ?thesis by (intro conjI) (rule p1 p2 p3 p4 p5)+
qed

theorem lista_primer_elemento_witness:
  "validar_json loads_varias ''[]'' = Inl (Exc ValueError ListaVacia)
   \<and> loads_varias (limpiar respuesta_numero_primero) = Some (JList [JInt 1, JDict registro_lista])
   \<and> validar_json loads_varias respuesta_numero_primero = Inl (Exc ValueError (NoEsObjeto ''int''))
   \<and> loads_varias (limpiar respuesta_sin_tipo_primero)
        = Some (JList [JDict registro_sin_tipo, JDict registro_lista])
   \<and> validar_json loads_varias respuesta_sin_tipo_primero
        = Inl (Exc ValueError (CamposFaltantes {''tipo_solicitud''}))
   \<and> registro_bien_formado registro_lista
   \<and> loads_varias (limpiar respuesta_registro_primero) = Some (JList [JDict registro_lista, JInt 1])
   \<and> validar_json loads_varias respuesta_registro_primero = Inr (JDict registro_lista)
   \<and> loads_varias (limpiar respuesta_lista) = Some (JList [JDict registro_lista])
   \<and> validar_json loads_varias respuesta_lista = Inr (JDict registro_lista)
   \<and> CAMPOS_REQUERIDOS \<subseteq> set (map fst registro_lista)"
proof -
  have l0: "loads_varias (limpiar ''[]'') = Some (JList [])"
    by (simp add: limpiar_vacia loads_varias_valores)
  have l1: "loads_varias (limpiar respuesta_numero_primero) = Some (JList [JInt 1, JDict registro_lista])"
    by (simp add: limpiar_varias loads_varias_valores)
  have l2: "loads_varias (limpiar respuesta_sin_tipo_primero)
        = Some (JList [JDict registro_sin_tipo, JDict registro_lista])"
    by (simp add: limpiar_varias loads_varias_valores)
  have l3: "loads_varias (limpiar respuesta_registro_primero) = Some (JList [JDict registro_lista, JInt 1])"
    by (simp add: limpiar_varias loads_varias_valores)
  have l4: "loads_varias (limpiar respuesta_lista) = Some (JList [JDict registro_lista])"
    by (simp add: limpiar_lista loads_varias_valores)
  have falta: "\<not> CAMPOS_REQUERIDOS \<subseteq> set (map fst registro_sin_tipo)"
    "CAMPOS_REQUERIDOS - set (map fst registro_sin_tipo) = {''tipo_solicitud''}"
    by (auto simp: registro_sin_tipo_def CAMPOS_REQUERIDOS_def)
  note vacia = lista_primer_elemento[THEN conjunct1, rule_format]
  note no_objeto = lista_primer_elemento[THEN conjunct2, THEN conjunct1, rule_format]
  note faltan = lista_primer_elemento[THEN conjunct2, THEN conjunct2, THEN conjunct1, rule_format]
  note bien = lista_primer_elemento[THEN conjunct2, THEN conjunct2, THEN conjunct2, THEN conjunct1,
      rule_format]
  note solo = lista_primer_elemento[THEN conjunct2, THEN conjunct2, THEN conjunct2, THEN conjunct2,
      rule_format]
  have r0: "validar_json loads_varias ''[]'' = Inl (Exc ValueError ListaVacia)"
    using vacia[of loads_varias "''[]''"] l0 by simp
  have r1: "validar_json loads_varias respuesta_numero_primero = Inl (Exc ValueError (NoEsObjeto ''int''))"
    using no_objeto[of loads_varias respuesta_numero_primero "JInt 1" "[JDict registro_lista]"] l1
    by simp
  have r2: "validar_json loads_varias respuesta_sin_tipo_primero
        = Inl (Exc ValueError (CamposFaltantes {''tipo_solicitud''}))"
    using faltan[of loads_varias respuesta_sin_tipo_primero registro_sin_tipo "[JDict registro_lista]"]
      l2 falta by simp
  have r3: "validar_json loads_varias respuesta_registro_primero = Inr (JDict registro_lista)"
    using bien[of loads_varias respuesta_registro_primero registro_lista "[JInt 1]"] l3 bien_lista
    by simp
  have r4: "validar_json loads_varias respuesta_lista = Inr (JDict registro_lista)"
    using bien[of loads_varias respuesta_lista registro_lista "[]"] l4 bien_lista by simp
  have r5: "CAMPOS_REQUERIDOS \<subseteq> set (map fst registro_lista)"
    using solo[of loads_varias respuesta_lista "JDict registro_lista" "[]" "JDict registro_lista"]
      l4 r4 by simp
  show ?thesis by (intro conjI) (rule r0 l1 r1 l2 r2 bien_lista l3 r3 l4 r4 r5)+
qed

text \<open>
  C7. For every valid JSON text \<open>t\<close> and every opening fence line (three backquotes and
  any text without a newline), the validator cleans the fenced text to the same text as
  \<open>t\<close> itself, namely \<open>t\<close> without the white space around it, and so returns on the
  fenced text what it returns on \<open>t\<close>, whatever the parser is.
\<close>

theorem cerca_transparente:
  assumes "json_valido t" and "salto \<notin> set info"
  shows "limpiar (cercar info t) = strip t \<and> limpiar t = strip t
     \<and> validar_json loads (cercar info t) = validar_json loads t"
proof -
  from assms(1) obtain ts where l: "lexer Fuera t = Some ts"
    by (auto simp: json_valido_def split: option.splits)
  show ?thesis
    by (simp add: validar_json_def limpiar_cercar[OF l assms(2)] limpiar_valido[OF l])
qed

theorem cerca_transparente_witness:
  "json_valido respuesta_lista \<and> salto \<notin> set ''json''
   \<and> limpiar (cercar ''json'' respuesta_lista) = respuesta_lista
   \<and> validar_json loads_lista (cercar ''json'' respuesta_lista) = Inr (JDict registro_lista)"
proof -
  have i: "salto \<notin> set ''json''" by (simp add: salto_def)
  have s: "strip respuesta_lista = respuesta_lista"
    using limpiar_lista cerca_transparente[OF lista_valida i] by simp
  have v: "validar_json loads_lista respuesta_lista = Inr (JDict registro_lista)"
    by (simp add: validar_json_def limpiar_lista loads_lista_def bien_formado_aceptado[OF bien_lista])
  show ?thesis
    using lista_valida i s v cerca_transparente[OF lista_valida i, of loads_lista] by simp
qed

section \<open>Properties of the Retrying Extractor\<close>

text \<open>
  C3. When each of the three attempts fails, by an exception of the completion service
  or by a reply that does not validate, the extractor sends exactly three requests, each
  the same request for the text, and ends with a \<open>RuntimeError\<close> whose message carries
  the message of the error of the third attempt: \<open>FalloExtraccion\<close> when that error is
  a \<open>ValueError\<close>, \<open>ErrorAPI\<close> otherwise, never the generic \<open>Inesperado\<close>.
\<close>

theorem reintentos_agotados:
  assumes "\<And>i. i < MAX_REINTENTOS \<Longrightarrow>
     cuerpo_intento (json_loads env) (cliente env (peticion texto) (length (llamadas w) + i)) = Inl (e i)"
  shows "\<exists>w'. extraer_datos env texto w =
      (Inl (Exc RuntimeError (if es_instancia (e 2) ValueError
          then FalloExtraccion MAX_REINTENTOS (str_de (e 2))
          else ErrorAPI MAX_REINTENTOS (str_de (e 2)))), w')
     \<and> llamadas w' = llamadas w @ [peticion texto, peticion texto, peticion texto]
     \<and> escritos w' = escritos w"
proof -
  have a0: "cuerpo_intento (json_loads env) (cliente env (peticion texto) (length (llamadas w))) = Inl (e 0)"
    using assms[of 0] by (simp add: MAX_REINTENTOS_def)
  obtain w1 where w1: "extraer_bucle env texto [1, 2, 3] w = extraer_bucle env texto [2, 3] w1"
    "llamadas w1 = llamadas w @ [peticion texto]" "escritos w1 = escritos w"
    using intento_fallido[OF a0, of 1 "[2, 3]"] by (auto simp: MAX_REINTENTOS_def)
  have a1: "cuerpo_intento (json_loads env) (cliente env (peticion texto) (length (llamadas w1))) = Inl (e 1)"
    using assms[of 1] w1(2) by (simp add: MAX_REINTENTOS_def)
  obtain w2 where w2: "extraer_bucle env texto [2, 3] w1 = extraer_bucle env texto [3] w2"
    "llamadas w2 = llamadas w1 @ [peticion texto]" "escritos w2 = escritos w1"
    using intento_fallido[OF a1, of 2 "[3]"] by (auto simp: MAX_REINTENTOS_def)
  have a2: "cuerpo_intento (json_loads env) (cliente env (peticion texto) (length (llamadas w2))) = Inl (e 2)"
    using assms[of 2] w1(2) w2(2) by (simp add: MAX_REINTENTOS_def)
  obtain w3 where w3: "extraer_bucle env texto [3] w2 =
      (Inl (Exc RuntimeError (if es_instancia (e 2) ValueError
          then FalloExtraccion MAX_REINTENTOS (str_de (e 2)) else ErrorAPI MAX_REINTENTOS (str_de (e 2)))), w3)"
    "llamadas w3 = llamadas w2 @ [peticion texto]" "escritos w3 = escritos w2"
    using intento_final[OF a2, of "[]"] by (auto simp: MAX_REINTENTOS_def)
  show ?thesis
    unfolding extraer_datos_def rango_intentos w1(1) w2(1) w3(1)
    using w1 w2 w3 by simp
qed

theorem reintentos_agotados_witness:
  "fst (extraer_datos env_ejemplo ''hola'' mundo_inicial)
     = Inl (Exc RuntimeError (ErrorAPI 3 (Texto ''timeout'')))
   \<and> llamadas (snd (extraer_datos env_ejemplo ''hola'' mundo_inicial))
     = [peticion ''hola'', peticion ''hola'', peticion ''hola'']"
proof -
  define e where "e = (\<lambda>i::nat. if i < 2 then Exc ValueError NoEsJSON
                         else Exc OtraExcepcion (Texto ''timeout''))"
  have h: "\<And>i. i < MAX_REINTENTOS \<Longrightarrow>
     cuerpo_intento (json_loads env_ejemplo)
       (cliente env_ejemplo (peticion ''hola'') (length (llamadas mundo_inicial) + i)) = Inl (e i)"
    by (simp add: env_ejemplo_def cliente_ejemplo_def mundo_inicial_def e_def validar_json_def
        limpiar_lo_siento loads_lo_siento)
  have e2: "e 2 = Exc OtraExcepcion (Texto ''timeout'')" by (simp add: e_def)
  from reintentos_agotados[of env_ejemplo "''hola''" mundo_inicial e, OF h]
  show ?thesis
    by (auto simp: e2 es_instancia_def MAX_REINTENTOS_def mundo_inicial_def)
qed

section \<open>Properties of the Batch Orchestrator\<close>

text \<open>
  C8. With the credential configured, a directory that holds no file with a supported
  extension ends the run at once: the result is the empty list, no error is raised, the
  only line logged is the warning, and nothing is written (the output directory has
  been created; \<open>escritos\<close> and \<open>llamadas\<close> are as they were).
\<close>

theorem directorio_sin_soportados:
  assumes "crear_cliente_openai env = Inr ()"
    and "\<forall>f\<in>set (directorio env).
           \<not> (es_archivo f \<and> lower (suffix (nombre f)) \<in> EXTENSIONES_SOPORTADAS)"
  shows "procesar_archivos env w =
     (Inr [], w\<lparr>dir_salida := True, registro := registro w @ [(WARNING, SinArchivos)]\<rparr>)"
proof -
  have "filter (\<lambda>f. es_archivo f \<and> lower (suffix (nombre f)) \<in> EXTENSIONES_SOPORTADAS)
          (directorio env) = []"
    using assms(2) by (simp add: filter_empty_conv)
  then have "candidatos env = []" by (simp add: candidatos_def)
  then show ?thesis
    using assms(1) by (simp add: procesar_archivos_def anotar_def)
qed

theorem directorio_sin_soportados_witness:
  "crear_cliente_openai env_vacio = Inr ()
   \<and> procesar_archivos env_vacio mundo_inicial =
       (Inr [], \<lparr>llamadas = [], registro = [(WARNING, SinArchivos)], escritos = [],
                 dir_salida = True, lecturas_reloj = 0\<rparr>)"
proof -
  have a: "crear_cliente_openai env_vacio = Inr ()"
    by (simp add: crear_cliente_openai_def env_vacio_def env_ejemplo_def)
  have s: "lower (suffix ''notas.md'') = ''.md''" by code_simp
  have b: "\<forall>f\<in>set (directorio env_vacio).
           \<not> (es_archivo f \<and> lower (suffix (nombre f)) \<in> EXTENSIONES_SOPORTADAS)"
    by (simp add: env_vacio_def env_ejemplo_def notas_md_def archivo_base_def s EXTENSIONES_SOPORTADAS_def)
  show ?thesis
    using a directorio_sin_soportados[OF a b, of mundo_inicial]
    by (simp add: mundo_inicial_def)
qed

text \<open>
  C9. Every file that the loop of \<open>procesar_archivos\<close> reaches is read by one of the
  four readers, and \<open>leer_archivo\<close> does not raise its unsupported-format error on it;
  so that error never leaves \<open>procesar_archivos\<close>.
\<close>

theorem formato_siempre_soportado:
  "(\<forall>f\<in>set (candidatos env).
      leer_archivo f \<in> {leer_txt f, leer_pdf f, leer_docx f, leer_excel f}
      \<and> (\<forall>ext n. leer_archivo f \<noteq> Inl (Exc ValueError (FormatoNoSoportado ext n))))
   \<and> (\<forall>ext n. fst (procesar_archivos env w) \<noteq> Inl (Exc ValueError (FormatoNoSoportado ext n)))"
proof -
  have a: "leer_archivo f \<in> {leer_txt f, leer_pdf f, leer_docx f, leer_excel f}"
    if "f \<in> set (candidatos env)" for f
  proof -
    from that have "lower (suffix (nombre f)) \<in> EXTENSIONES_SOPORTADAS"
      by (simp add: candidatos_set)
    from leer_archivo_soportado[OF this refl] show ?thesis
      by (auto simp: lector_de_def split: if_splits)
  qed
  have b: "leer_archivo f \<noteq> Inl (Exc ValueError (FormatoNoSoportado ext n))"
    if "f \<in> set (candidatos env)" for f ext n
    using a[OF that] lectores_sin_formato[of f ext n] by auto
  have c: "fst (procesar_archivos env w) \<noteq> Inl (Exc ValueError (FormatoNoSoportado ext n))" for ext n
    using procesar_archivos_error[of env w "Exc ValueError (FormatoNoSoportado ext n)"] b by auto
  show ?thesis using a b c by blast
qed

theorem formato_siempre_soportado_witness:
  "a_pdf \<in> set (candidatos env_ejemplo)
   \<and> leer_archivo a_pdf \<in> {leer_txt a_pdf, leer_pdf a_pdf, leer_docx a_pdf, leer_excel a_pdf}
   \<and> leer_archivo a_pdf \<noteq> Inl (Exc ValueError (FormatoNoSoportado ''.pdf'' ''a.pdf''))"
  using a_pdf_candidato formato_siempre_soportado[of env_ejemplo mundo_inicial] by blast

text \<open>
  C10. A file of the input directory whose suffix is a supported extension up to the
  case of its letters is a candidate of the batch and is read by the reader of that
  extension.
\<close>

theorem extension_sin_distinguir_caja:
  assumes "f \<in> set (directorio env)" and "es_archivo f"
    and "ext \<in> EXTENSIONES_SOPORTADAS" and "igual_sin_caja (suffix (nombre f)) ext"
  shows "f \<in> set (candidatos env) \<and> leer_archivo f = lector_de ext f"
proof -
  have l: "lower (suffix (nombre f)) = ext"
    using lower_igual_sin_caja[OF assms(4) extensiones_minusculas[OF assms(3)]] .
  show ?thesis
    using assms(1,2,3) l leer_archivo_soportado[OF assms(3) l] by (simp add: candidatos_set)
qed

theorem extension_sin_distinguir_caja_witness:
  "informe \<in> set (directorio env_informe) \<and> es_archivo informe
   \<and> ''.pdf'' \<in> EXTENSIONES_SOPORTADAS \<and> igual_sin_caja (suffix (nombre informe)) ''.pdf''
   \<and> informe \<in> set (candidatos env_informe) \<and> leer_archivo informe = leer_pdf informe"
proof -
  have a: "informe \<in> set (directorio env_informe)" by (simp add: env_informe_def)
  have b: "es_archivo informe" by (simp add: informe_def archivo_base_def)
  have c: "''.pdf'' \<in> EXTENSIONES_SOPORTADAS" by (simp add: EXTENSIONES_SOPORTADAS_def)
  have l: "lector_de ''.pdf'' = leer_pdf" by (simp add: lector_de_def)
  show ?thesis
    using a b c sufijo_informe extension_sin_distinguir_caja[OF a b c sufijo_informe]
    by (simp add: l)
qed

text \<open>
  C1. The claim: a failure of any per-document kind is recorded for that document and
  the batch goes on. The readers raise \<open>ValueError\<close> and the loop catches
  \<open>RuntimeError\<close> only. In the run below the directory holds \<open>a.pdf\<close>, a PDF whose
  single page has no text, and \<open>b.txt\<close>: the \<open>ValueError\<close> of the first document leaves
  \<open>procesar_archivos\<close>, the second document is never processed, no failure is
  recorded and no summary is written.
\<close>

theorem error_de_lectura_aborta:
  "procesar_archivos env_ejemplo mundo_inicial =
     (Inl (Exc ValueError (PdfSinTexto ''a.pdf'')),
      \<lparr>llamadas = [], registro = [(INFO, Encontrados 2), (INFO, Procesando ''a.pdf'')],
        escritos = [], dir_salida = True, lecturas_reloj = 0\<rparr>)"
proof -
  have n: "nombre a_pdf = ''a.pdf''" "nombre b_txt = ''b.txt''" "es_archivo a_pdf" "es_archivo b_txt"
    by (simp_all add: a_pdf_def b_txt_def archivo_base_def)
  have s: "lower (suffix ''a.pdf'') = ''.pdf''" "lower (suffix ''b.txt'') = ''.txt''"
    by code_simp+
  have o: "\<not> ''b.txt'' \<le> ''a.pdf''" by code_simp
  have c: "candidatos env_ejemplo = [a_pdf, b_txt]"
    by (simp add: candidatos_def env_ejemplo_def n s o EXTENSIONES_SOPORTADAS_def)
  have v: "strip [] = []" by (simp add: strip_def)
  have l: "leer_archivo a_pdf = Inl (Exc ValueError (PdfSinTexto ''a.pdf''))"
    by (simp add: leer_archivo_def n s leer_pdf_def a_pdf_def archivo_base_def v)
  have k: "crear_cliente_openai env_ejemplo = Inr ()"
    by (simp add: crear_cliente_openai_def env_ejemplo_def)
  show ?thesis
    by (simp add: procesar_archivos_def k c Let_def procesar_uno_def l es_instancia_def
        anotar_def mundo_inicial_def n)
qed

end
